theory Spec2Isabelle
  imports Main "HOL-Library.Sublist"
begin

section \<open>JavaScript strings and values\<close>

text \<open>
  Strings are lists of code units. Header values and request targets reach Node as
  Latin-1 decoded bytes, so every code unit fits a \<^typ>\<open>char\<close>.
\<close>

definition isDigit :: "char \<Rightarrow> bool" where
  "isDigit c = (48 \<le> (of_char c :: nat) \<and> (of_char c :: nat) \<le> 57)"

text \<open>The white space that \<^verbatim>\<open>String.prototype.trim\<close> strips, among the code units below 256:
  TAB, LF, VT, FF, CR, SP and NBSP.\<close>

definition isWhiteSpace :: "char \<Rightarrow> bool" where
  "isWhiteSpace c = ((of_char c :: nat) \<in> {9, 10, 11, 12, 13, 32, 160})"

definition js_trim :: "string \<Rightarrow> string" where
  "js_trim s = rev (dropWhile isWhiteSpace (rev (dropWhile isWhiteSpace s)))"

text \<open>\<^verbatim>\<open>s.split(sep)\<close> for a one-character separator: never an empty array.\<close>

fun js_split :: "char \<Rightarrow> string \<Rightarrow> string list" where
  "js_split sep [] = [[]]"
| "js_split sep (c # cs) =
     (if c = sep then [] # js_split sep cs
      else (case js_split sep cs of
              [] \<Rightarrow> [[c]]
            | w # ws \<Rightarrow> (c # w) # ws))"

text \<open>\<^verbatim>\<open>Array.prototype.join\<close>.\<close>

fun js_join :: "string \<Rightarrow> string list \<Rightarrow> string" where
  "js_join sep [] = []"
| "js_join sep [x] = x"
| "js_join sep (x # y # ys) = x @ sep @ js_join sep (y # ys)"

text \<open>ASCII case folding, which is all that the \<^verbatim>\<open>i\<close> flag of a regular expression
  without the \<^verbatim>\<open>u\<close> flag does to a pattern of ASCII letters.\<close>

definition toLowerChar :: "char \<Rightarrow> char" where
  "toLowerChar c =
     (if 65 \<le> (of_char c :: nat) \<and> (of_char c :: nat) \<le> 90
      then char_of ((of_char c :: nat) + 32) else c)"

definition toLowerCase :: "string \<Rightarrow> string" where
  "toLowerCase s = map toLowerChar s"

text \<open>A header of \<^verbatim>\<open>IncomingHttpHeaders\<close> is a string or an array of strings; a header
  that is \<^verbatim>\<open>undefined\<close> is a key without an entry.\<close>

datatype header_value = HString string | HArray "string list"

fun toString :: "header_value \<Rightarrow> string" where
  "toString (HString s) = s"
| "toString (HArray xs) = js_join '','' xs"

text \<open>What a template literal \<^verbatim>\<open>${v}\<close> prints for a value that may be undefined.\<close>

fun template_hv :: "header_value option \<Rightarrow> string" where
  "template_hv None = ''undefined''"
| "template_hv (Some v) = toString v"

fun template_str :: "string option \<Rightarrow> string" where
  "template_str None = ''undefined''"
| "template_str (Some s) = s"

text \<open>Upper case for ASCII strings; it is applied to HTTP tokens only.\<close>

definition toUpperChar :: "char \<Rightarrow> char" where
  "toUpperChar c =
     (if 97 \<le> (of_char c :: nat) \<and> (of_char c :: nat) \<le> 122
      then char_of ((of_char c :: nat) - 32) else c)"

definition toUpperCase :: "string \<Rightarrow> string" where
  "toUpperCase s = map toUpperChar s"

text \<open>
  What a \<^verbatim>\<open>throw\<close> can carry: a \<^verbatim>\<open>TypeError\<close> or an \<^verbatim>\<open>Error\<close> with its message; any
  other value that converts to a string, by that string; or a value whose conversion to
  a string itself throws (a \<^verbatim>\<open>Symbol\<close>, an object without a prototype, an object whose
  \<^verbatim>\<open>toString\<close> throws), by what the conversion throws.
\<close>

datatype js_error = TypeError string | Error string | Thrown string | Unprintable js_error

text \<open>\<^verbatim>\<open>`${err}`\<close>: the string, or what the conversion throws. \<^verbatim>\<open>Error.prototype.toString\<close>
  leaves the colon out when the message is empty.\<close>

fun error_toString :: "js_error \<Rightarrow> js_error + string" where
  "error_toString (TypeError m) = Inr (if m = [] then ''TypeError'' else ''TypeError: '' @ m)"
| "error_toString (Error m) = Inr (if m = [] then ''Error'' else ''Error: '' @ m)"
| "error_toString (Thrown v) = Inr v"
| "error_toString (Unprintable e) = Inl e"

section \<open>The transport request\<close>

text \<open>
  The socket of an \<^verbatim>\<open>IncomingMessage\<close>. \<open>encrypted\<close> is the value of
  \<^verbatim>\<open>'encrypted' in req.socket && req.socket.encrypted\<close>; the three \<open>has_\<close> fields say
  whether \<^verbatim>\<open>typeof socket.on\<close>, \<^verbatim>\<open>socket.off\<close> and \<^verbatim>\<open>socket.removeListener\<close> are
  \<^verbatim>\<open>'function'\<close> (all three are, on a \<^verbatim>\<open>net.Socket\<close>).
\<close>

record socket =
  encrypted :: bool
  remoteAddress :: "string option"
  has_on :: bool
  has_off :: bool
  has_removeListener :: bool

text \<open>
  The body override \<^verbatim>\<open>req.body\<close> of type \<^verbatim>\<open>unknown\<close>, by what \<^verbatim>\<open>makeRequestBody\<close> asks of
  it: its \<^verbatim>\<open>typeof\<close>, its length as a string, and for an object its own enumerable keys,
  its \<^verbatim>\<open>Symbol.asyncIterator\<close> member and what \<^verbatim>\<open>Buffer.from(JSON.stringify(body))\<close>
  gives, which is bytes or an error (a cycle, a \<^verbatim>\<open>BigInt\<close>, a \<^verbatim>\<open>toJSON\<close> that throws or
  returns \<^verbatim>\<open>undefined\<close>). The member is \<open>None\<close> when it is \<^verbatim>\<open>undefined\<close>; otherwise the
  object is an async iterable, and the flag says whether it is a stream that has been
  read from or is locked. \<open>BodyOther\<close> is any value whose \<^verbatim>\<open>typeof\<close> is neither
  \<^verbatim>\<open>'string'\<close> nor \<^verbatim>\<open>'object'\<close>.
\<close>

datatype body_override =
    BodyUndefined
  | BodyNull
  | BodyString string
  | BodyObject "string list" "bool option" "js_error + string"
  | BodyOther

text \<open>The \<^verbatim>\<open>IncomingMessage\<close>. \<open>req_disturbed\<close> says whether its body stream has been
  read from already, as a body parser that ran before does.\<close>

record node_request =
  req_method :: "string option"
  req_url :: "string option"
  req_headers :: "(string \<times> header_value) list"
  req_body :: body_override
  req_disturbed :: bool
  req_socket :: socket
  req_stream_session_socket :: "socket option"

definition header :: "node_request \<Rightarrow> string \<Rightarrow> header_value option" where
  "header req name = map_of (req_headers req) name"

section \<open>NodeApp.createRequest: the URL\<close>

text \<open>\<^verbatim>\<open>multiValueHeader?.toString()?.split(',').map((e) => e.trim())?.[0]\<close>\<close>

definition getFirstForwardedValue :: "header_value option \<Rightarrow> string option" where
  "getFirstForwardedValue multiValueHeader =
     (case multiValueHeader of
        None \<Rightarrow> None
      | Some h \<Rightarrow>
          (case map js_trim (js_split CHR '','' (toString h)) of
             [] \<Rightarrow> None
           | e # _ \<Rightarrow> Some e))"

text \<open>\<^verbatim>\<open>/:\d+$/.test(hostname)\<close>: the longest run of digits at the end is not empty and a
  colon stands before it.\<close>

definition test_port_suffix :: "string \<Rightarrow> bool" where
  "test_port_suffix s =
     (takeWhile isDigit (rev s) \<noteq> [] \<and>
      (case dropWhile isDigit (rev s) of
         [] \<Rightarrow> False
       | c # _ \<Rightarrow> c = CHR '':''))"

definition getHostnamePort :: "header_value option \<Rightarrow> string option \<Rightarrow> string" where
  "getHostnamePort hostname port =
     (let portInHostname =
            (case hostname of Some (HString h) \<Rightarrow> test_port_suffix h | _ \<Rightarrow> False)
      in if portInHostname then template_hv hostname
         else template_hv hostname @
              (case port of
                 None \<Rightarrow> []
               | Some p \<Rightarrow> if p \<noteq> [] then '':'' @ p else []))"

record 'd create_options =
  skipBody :: bool
  allowedDomains :: "'d list"

definition default_create_options :: "'d create_options" where
  "default_create_options = \<lparr>skipBody = False, allowedDomains = []\<rparr>"

definition isEncrypted :: "node_request \<Rightarrow> bool" where
  "isEncrypted req = encrypted (req_socket req)"

definition forwardedProtocol :: "node_request \<Rightarrow> string option" where
  "forwardedProtocol req = getFirstForwardedValue (header req ''x-forwarded-proto'')"

definition providedProtocol :: "node_request \<Rightarrow> string" where
  "providedProtocol req = (if isEncrypted req then ''https'' else ''http'')"

definition protocol :: "node_request \<Rightarrow> string" where
  "protocol req =
     (case forwardedProtocol req of Some p \<Rightarrow> p | None \<Rightarrow> providedProtocol req)"

definition providedHostname :: "node_request \<Rightarrow> header_value option" where
  "providedHostname req =
     (case header req ''host'' of
        Some h \<Rightarrow> Some h
      | None \<Rightarrow> header req '':authority'')"

text \<open>
  \<open>validateForwardedHost\<close> stands for \<^verbatim>\<open>App.validateForwardedHost\<close>, which is not part of
  these sources: the trust policy is a parameter. The test \<^verbatim>\<open>forwardedHostname && ...\<close>
  skips the policy for the empty string, which is falsy.
\<close>

definition forwardedHostname ::
  "(string \<Rightarrow> 'd list \<Rightarrow> string \<Rightarrow> bool) \<Rightarrow> node_request \<Rightarrow> 'd create_options \<Rightarrow> string option" where
  "forwardedHostname validateForwardedHost req opts =
     (case getFirstForwardedValue (header req ''x-forwarded-host'') of
        None \<Rightarrow> None
      | Some fh \<Rightarrow>
          if fh \<noteq> [] \<and>
             \<not> validateForwardedHost fh (allowedDomains opts)
                 (case forwardedProtocol req of Some p \<Rightarrow> p | None \<Rightarrow> providedProtocol req)
          then None
          else Some fh)"

text \<open>\<^verbatim>\<open>forwardedHostname ?? providedHostname\<close>: only \<^verbatim>\<open>undefined\<close> gives way.\<close>

definition hostname ::
  "(string \<Rightarrow> 'd list \<Rightarrow> string \<Rightarrow> bool) \<Rightarrow> node_request \<Rightarrow> 'd create_options \<Rightarrow> header_value option" where
  "hostname validateForwardedHost req opts =
     (case forwardedHostname validateForwardedHost req opts of
        Some fh \<Rightarrow> Some (HString fh)
      | None \<Rightarrow> providedHostname req)"

definition port :: "node_request \<Rightarrow> string option" where
  "port req = getFirstForwardedValue (header req ''x-forwarded-port'')"

text \<open>The two strings handed to the \<^verbatim>\<open>URL\<close> constructor, in the \<^verbatim>\<open>try\<close> and in the
  \<^verbatim>\<open>catch\<close>.\<close>

definition primaryURLString ::
  "(string \<Rightarrow> 'd list \<Rightarrow> string \<Rightarrow> bool) \<Rightarrow> node_request \<Rightarrow> 'd create_options \<Rightarrow> string" where
  "primaryURLString validateForwardedHost req opts =
     protocol req @ ''://'' @
     getHostnamePort (hostname validateForwardedHost req opts) (port req) @
     template_str (req_url req)"

definition fallbackURLString :: "node_request \<Rightarrow> string" where
  "fallbackURLString req =
     providedProtocol req @ ''://'' @ getHostnamePort (providedHostname req) (port req)"

text \<open>
  \<open>newURL\<close> stands for the platform's \<^verbatim>\<open>URL\<close> constructor: \<open>None\<close> is the
  \<^verbatim>\<open>TypeError\<close> it throws on a string it cannot parse. The \<^verbatim>\<open>catch\<close> block is not itself
  guarded, so a second failure leaves \<^verbatim>\<open>createRequest\<close>.
\<close>

definition requestURL ::
  "(string \<Rightarrow> 'd list \<Rightarrow> string \<Rightarrow> bool) \<Rightarrow> (string \<Rightarrow> 'u option) \<Rightarrow>
   node_request \<Rightarrow> 'd create_options \<Rightarrow> js_error + 'u" where
  "requestURL validateForwardedHost newURL req opts =
     (case newURL (primaryURLString validateForwardedHost req opts) of
        Some u \<Rightarrow> Inr u
      | None \<Rightarrow>
          (case newURL (fallbackURLString req) of
             Some u \<Rightarrow> Inr u
           | None \<Rightarrow> Inl (TypeError ''Invalid URL'')))"

section \<open>NodeApp.createRequest: method, headers and body\<close>

text \<open>The \<^verbatim>\<open>Headers\<close> object as the list of the pairs appended to it, in order.\<close>

type_synonym headers = "(string \<times> string) list"

text \<open>An HTTP token: one or more of the characters \<^verbatim>\<open>!#$%&'*+-.^_`|~\<close>, digits and
  letters. A header name must be one; the pseudo-headers of HTTP/2, which begin with a
  colon, are not.\<close>

definition isTchar :: "char \<Rightarrow> bool" where
  "isTchar c =
     ((48 \<le> (of_char c :: nat) \<and> (of_char c :: nat) \<le> 57) \<or>
      (65 \<le> (of_char c :: nat) \<and> (of_char c :: nat) \<le> 90) \<or>
      (97 \<le> (of_char c :: nat) \<and> (of_char c :: nat) \<le> 122) \<or>
      (of_char c :: nat) \<in> {33, 35, 36, 37, 38, 39, 42, 43, 45, 46, 94, 95, 96, 124, 126})"

definition isValidHTTPToken :: "string \<Rightarrow> bool" where
  "isValidHTTPToken s = (s \<noteq> [] \<and> list_all isTchar s)"

text \<open>A header value loses the tabs, line feeds, carriage returns and spaces at its two
  ends; what is left must hold no NUL, line feed or carriage return.\<close>

definition isHTTPWhiteSpace :: "char \<Rightarrow> bool" where
  "isHTTPWhiteSpace c = ((of_char c :: nat) \<in> {9, 10, 13, 32})"

definition headerValueNormalize :: "string \<Rightarrow> string" where
  "headerValueNormalize v = rev (dropWhile isHTTPWhiteSpace (rev (dropWhile isHTTPWhiteSpace v)))"

definition isValidHeaderValue :: "string \<Rightarrow> bool" where
  "isValidHeaderValue v = list_all (\<lambda>c. (of_char c :: nat) \<notin> {0, 10, 13}) v"

text \<open>\<^verbatim>\<open>headers.append(name, value)\<close> of the platform's \<^verbatim>\<open>Headers\<close>, which throws a
  \<^verbatim>\<open>TypeError\<close> for a name or a value that is not valid.\<close>

definition append_header :: "string \<Rightarrow> string \<Rightarrow> headers \<Rightarrow> js_error + headers" where
  "append_header name v hs =
     (if \<not> isValidHTTPToken name
      then Inl (TypeError (''Headers.append: '' @ name @ '' is an invalid header name.''))
      else if \<not> isValidHeaderValue (headerValueNormalize v)
      then Inl (TypeError (''Headers.append: '' @ headerValueNormalize v @ '' is an invalid header value.''))
      else Inr (hs @ [(name, headerValueNormalize v)]))"

text \<open>The inner loop of \<^verbatim>\<open>makeRequestHeaders\<close>, over the items of an array value.\<close>

fun appendItems :: "string \<Rightarrow> string list \<Rightarrow> headers \<Rightarrow> js_error + headers" where
  "appendItems name [] hs = Inr hs"
| "appendItems name (item # items) hs =
     (case append_header name item hs of
        Inl e \<Rightarrow> Inl e
      | Inr hs' \<Rightarrow> appendItems name items hs')"

text \<open>The outer loop, over \<^verbatim>\<open>Object.entries(req.headers)\<close>.\<close>

fun appendEntries :: "(string \<times> header_value) list \<Rightarrow> headers \<Rightarrow> js_error + headers" where
  "appendEntries [] hs = Inr hs"
| "appendEntries ((name, v) # entries) hs =
     (case (case v of
              HArray items \<Rightarrow> appendItems name items hs
            | HString s \<Rightarrow> append_header name s hs) of
        Inl e \<Rightarrow> Inl e
      | Inr hs' \<Rightarrow> appendEntries entries hs')"

definition makeRequestHeaders :: "node_request \<Rightarrow> js_error + headers" where
  "makeRequestHeaders req = appendEntries (req_headers req) []"

text \<open>A body is a buffer of bytes, or an async iterable handed through: the transport
  request itself or the override, each with the flag that says whether it has been read
  from or is locked.\<close>

datatype request_body = BufferBody string | TransportStream bool | OverrideStream bool

record body_props =
  bp_body :: "request_body option"
  bp_duplex :: "string option"

definition asyncIterableToBodyProps :: "request_body \<Rightarrow> body_props" where
  "asyncIterableToBodyProps iterable = \<lparr>bp_body = Some iterable, bp_duplex = Some ''half''\<rparr>"

definition makeRequestBody :: "node_request \<Rightarrow> js_error + body_props" where
  "makeRequestBody req =
     (case req_body req of
        BodyUndefined \<Rightarrow> Inr (asyncIterableToBodyProps (TransportStream (req_disturbed req)))
      | BodyString s \<Rightarrow>
          if length s > 0 then Inr \<lparr>bp_body = Some (BufferBody s), bp_duplex = None\<rparr>
          else Inr (asyncIterableToBodyProps (TransportStream (req_disturbed req)))
      | BodyObject keys asyncIterator json \<Rightarrow>
          if length keys > 0
          then (case json of
                  Inl e \<Rightarrow> Inl e
                | Inr bytes \<Rightarrow> Inr \<lparr>bp_body = Some (BufferBody bytes), bp_duplex = None\<rparr>)
          else (case asyncIterator of
                  Some disturbed \<Rightarrow> Inr (asyncIterableToBodyProps (OverrideStream disturbed))
                | None \<Rightarrow> Inr (asyncIterableToBodyProps (TransportStream (req_disturbed req))))
      | BodyNull \<Rightarrow> Inr (asyncIterableToBodyProps (TransportStream (req_disturbed req)))
      | BodyOther \<Rightarrow> Inr (asyncIterableToBodyProps (TransportStream (req_disturbed req))))"

text \<open>The \<^verbatim>\<open>RequestInit\<close> named \<^verbatim>\<open>options\<close>; \<open>init_signal\<close> is the identity of the
  \<^verbatim>\<open>AbortController\<close> allocated by this call.\<close>

record request_init =
  init_method :: string
  init_headers :: headers
  init_signal :: nat
  init_body :: "request_body option"
  init_duplex :: "string option"

definition method_or_GET :: "node_request \<Rightarrow> string" where
  "method_or_GET req =
     (case req_method req of
        None \<Rightarrow> ''GET''
      | Some m \<Rightarrow> if m \<noteq> [] then m else ''GET'')"

definition bodyAllowed :: "node_request \<Rightarrow> 'd create_options \<Rightarrow> bool" where
  "bodyAllowed req opts =
     (method_or_GET req \<noteq> ''HEAD'' \<and> method_or_GET req \<noteq> ''GET'' \<and> skipBody opts = False)"

text \<open>Lines 273 to 281. \<^verbatim>\<open>makeRequestHeaders\<close> runs first and
  \<^verbatim>\<open>makeRequestBody\<close> only when a body is allowed; either may throw.\<close>

definition requestInit :: "node_request \<Rightarrow> 'd create_options \<Rightarrow> nat \<Rightarrow> js_error + request_init" where
  "requestInit req opts controller =
     (case makeRequestHeaders req of
        Inl e \<Rightarrow> Inl e
      | Inr hs \<Rightarrow>
          let options = \<lparr>init_method = method_or_GET req,
                           init_headers = hs,
                           init_signal = controller,
                           init_body = None,
                           init_duplex = None\<rparr>
          in if bodyAllowed req opts
             then (case makeRequestBody req of
                     Inl e \<Rightarrow> Inl e
                   | Inr props \<Rightarrow>
                       Inr (options\<lparr>init_body := bp_body props, init_duplex := bp_duplex props\<rparr>))
             else Inr options)"

text \<open>The normalized \<^verbatim>\<open>Request\<close>. \<open>clientAddress\<close> is the property stored under
  \<^verbatim>\<open>clientAddressSymbol\<close>.\<close>

record 'u request =
  url :: 'u
  request_method :: string
  request_headers :: headers
  body :: "request_body option"
  signal :: nat
  clientAddress :: "string option"

text \<open>
  What the platform's \<^verbatim>\<open>Request\<close> constructor does with a method: it throws for a
  method that is not a token and for \<^verbatim>\<open>CONNECT\<close>, \<^verbatim>\<open>TRACE\<close> and \<^verbatim>\<open>TRACK\<close> in any case of
  letters, and it writes \<^verbatim>\<open>DELETE\<close>, \<^verbatim>\<open>GET\<close>, \<^verbatim>\<open>HEAD\<close>, \<^verbatim>\<open>OPTIONS\<close>, \<^verbatim>\<open>POST\<close> and \<^verbatim>\<open>PUT\<close>
  in upper case.
\<close>

definition normalizeMethod :: "string \<Rightarrow> js_error + string" where
  "normalizeMethod m =
     (if \<not> isValidHTTPToken m
      then Inl (TypeError (m @ '' is not a valid HTTP method.''))
      else if toUpperCase m \<in> set [''CONNECT'', ''TRACE'', ''TRACK'']
      then Inl (TypeError (m @ '' HTTP method is unsupported.''))
      else if toUpperCase m \<in> set [''DELETE'', ''GET'', ''HEAD'', ''OPTIONS'', ''POST'', ''PUT'']
      then Inr (toUpperCase m)
      else Inr m)"

text \<open>The constructor reads a body that is an async iterable only when it has not been
  read from and is not locked.\<close>

fun extractBody :: "request_body \<Rightarrow> js_error + request_body" where
  "extractBody (BufferBody bytes) = Inr (BufferBody bytes)"
| "extractBody (TransportStream disturbed) =
     (if disturbed then Inl (TypeError ''Response body object should not be disturbed or locked'')
      else Inr (TransportStream disturbed))"
| "extractBody (OverrideStream disturbed) =
     (if disturbed then Inl (TypeError ''Response body object should not be disturbed or locked'')
      else Inr (OverrideStream disturbed))"

fun isStream :: "request_body \<Rightarrow> bool" where
  "isStream (BufferBody bytes) = False"
| "isStream (TransportStream disturbed) = True"
| "isStream (OverrideStream disturbed) = True"

text \<open>
  \<^verbatim>\<open>new Request(url, options)\<close>. \<open>includesCredentials\<close> says whether the URL has a user
  name or a password; the constructor throws a \<^verbatim>\<open>TypeError\<close> for such a URL, for a
  \<^verbatim>\<open>duplex\<close> other than \<^verbatim>\<open>'half'\<close>, for a method it refuses, for a body with \<^verbatim>\<open>GET\<close> or
  \<^verbatim>\<open>HEAD\<close>, for a stream it cannot read and for a stream without \<^verbatim>\<open>duplex\<close>.
\<close>

definition newRequest :: "('u \<Rightarrow> bool) \<Rightarrow> 'u \<Rightarrow> request_init \<Rightarrow> js_error + 'u request" where
  "newRequest includesCredentials u options =
     (if init_duplex options \<noteq> None \<and> init_duplex options \<noteq> Some ''half''
      then Inl (TypeError ''RequestInit: duplex is not a valid enum value.'')
      else if includesCredentials u
      then Inl (TypeError ''Request cannot be constructed from a URL that includes credentials'')
      else
        case normalizeMethod (init_method options) of
          Inl e \<Rightarrow> Inl e
        | Inr m \<Rightarrow>
            (case init_body options of
               None \<Rightarrow>
                 Inr \<lparr>url = u, request_method = m, request_headers = init_headers options,
                      body = None, signal = init_signal options, clientAddress = None\<rparr>
             | Some b \<Rightarrow>
                 if m = ''GET'' \<or> m = ''HEAD''
                 then Inl (TypeError ''Request with GET/HEAD method cannot have body.'')
                 else
                   (case extractBody b of
                      Inl e \<Rightarrow> Inl e
                    | Inr b' \<Rightarrow>
                        if isStream b' \<and> init_duplex options = None
                        then Inl (TypeError ''RequestInit: duplex option is required when sending a body.'')
                        else
                          Inr \<lparr>url = u, request_method = m, request_headers = init_headers options,
                               body = Some b', signal = init_signal options,
                               clientAddress = None\<rparr>)))"

text \<open>\<^verbatim>\<open>forwardedClientIp || req.socket?.remoteAddress\<close>, kept only when truthy.\<close>

definition clientIp :: "node_request \<Rightarrow> string option" where
  "clientIp req =
     (let forwardedClientIp = getFirstForwardedValue (header req ''x-forwarded-for'');
          ip = (case forwardedClientIp of
                  Some a \<Rightarrow> if a \<noteq> [] then Some a else remoteAddress (req_socket req)
                | None \<Rightarrow> remoteAddress (req_socket req))
      in case ip of
           Some a \<Rightarrow> if a \<noteq> [] then Some a else None
         | None \<Rightarrow> None)"

section \<open>NodeApp.createRequest: cancellation wiring\<close>

text \<open>
  The mutable state that the adaptations of one transport request share: the request
  object's property under \<^verbatim>\<open>nodeRequestAbortControllerCleanupSymbol\<close>, the \<^verbatim>\<open>'close'\<close>
  listeners of its socket and the socket's \<^verbatim>\<open>destroyed\<close> flag, and, for the controller
  allocated by the \<open>k\<close>-th call, the \<^verbatim>\<open>cleanedUp\<close> flag of its closures, whether
  \<^verbatim>\<open>cleanup\<close> is still an \<^verbatim>\<open>'abort'\<close> listener of its signal and whether the signal is
  aborted. The closures \<^verbatim>\<open>cleanup\<close> and \<^verbatim>\<open>onSocketClose\<close> of the \<open>k\<close>-th call are named
  by \<open>k\<close>; \<open>wired\<close> holds the calls that created them. \<open>cleanupRuns\<close> and
  \<open>abortEvents\<close> only count: how often the body of \<^verbatim>\<open>cleanup\<close> ran past its guard, and
  how often the signal dispatched \<^verbatim>\<open>'abort'\<close>.
\<close>

record wiring =
  nextController :: nat
  cleanupSlot :: "nat option"
  closeListeners :: "nat list"
  socketDestroyed :: bool
  wired :: "nat set"
  cleanedUp :: "nat set"
  abortListeners :: "nat set"
  aborted :: "nat set"
  cleanupRuns :: "nat \<Rightarrow> nat"
  abortEvents :: "nat \<Rightarrow> nat"

definition fresh_wiring :: wiring where
  "fresh_wiring =
     \<lparr>nextController = 0, cleanupSlot = None, closeListeners = [], socketDestroyed = False,
      wired = {}, cleanedUp = {}, abortListeners = {}, aborted = {},
      cleanupRuns = (\<lambda>k. 0), abortEvents = (\<lambda>k. 0)\<rparr>"

text \<open>\<^verbatim>\<open>emitter.off(name, listener)\<close> removes the most recently added instance.\<close>

definition off :: "nat \<Rightarrow> nat list \<Rightarrow> nat list" where
  "off listener listeners = rev (remove1 listener (rev listeners))"

definition getRequestSocket :: "node_request \<Rightarrow> socket option" where
  "getRequestSocket req =
     (if has_on (req_socket req) then Some (req_socket req)
      else (case req_stream_session_socket req of
              Some http2Socket \<Rightarrow> if has_on http2Socket then Some http2Socket else None
            | None \<Rightarrow> None))"

definition getAbortControllerCleanup :: "wiring \<Rightarrow> nat option" where
  "getAbortControllerCleanup w = cleanupSlot w"

definition removeSocketListener :: "socket \<Rightarrow> nat \<Rightarrow> wiring \<Rightarrow> wiring" where
  "removeSocketListener sock k w =
     (if has_off sock then w\<lparr>closeListeners := off k (closeListeners w)\<rparr>
      else if has_removeListener sock then w\<lparr>closeListeners := off k (closeListeners w)\<rparr>
      else w)"

definition cleanup :: "socket \<Rightarrow> nat \<Rightarrow> wiring \<Rightarrow> wiring" where
  "cleanup sock k w =
     (if k \<in> cleanedUp w then w
      else
        let w1 = w\<lparr>cleanedUp := insert k (cleanedUp w),
                    cleanupRuns := (cleanupRuns w)(k := Suc (cleanupRuns w k))\<rparr>;
            w2 = removeSocketListener sock k w1;
            w3 = w2\<lparr>abortListeners := abortListeners w2 - {k}\<rparr>
        in w3\<lparr>cleanupSlot := None\<rparr>)"

text \<open>\<^verbatim>\<open>controller.abort()\<close>: an aborted signal stays as it is; otherwise the signal
  dispatches \<^verbatim>\<open>'abort'\<close> to \<^verbatim>\<open>cleanup\<close> when that is still listening (registered with
  \<^verbatim>\<open>once\<close>, so the registration ends with the dispatch).\<close>

definition abort :: "socket \<Rightarrow> nat \<Rightarrow> wiring \<Rightarrow> wiring" where
  "abort sock k w =
     (if k \<in> aborted w then w
      else
        let w1 = w\<lparr>aborted := insert k (aborted w),
                    abortEvents := (abortEvents w)(k := Suc (abortEvents w k))\<rparr>
        in if k \<in> abortListeners w1
           then cleanup sock k (w1\<lparr>abortListeners := abortListeners w1 - {k}\<rparr>)
           else w1)"

definition onSocketClose :: "socket \<Rightarrow> nat \<Rightarrow> wiring \<Rightarrow> wiring" where
  "onSocketClose sock k w =
     (let w1 = cleanup sock k w
      in if k \<notin> aborted w1 then abort sock k w1 else w1)"

text \<open>Lines 285 to 323, for the controller \<open>k\<close> of this call.\<close>

definition wireAbort :: "node_request \<Rightarrow> nat \<Rightarrow> wiring \<Rightarrow> wiring" where
  "wireAbort req k w =
     (case getRequestSocket req of
        None \<Rightarrow> w
      | Some sock \<Rightarrow>
          if has_on sock then
            let w1 = (case getAbortControllerCleanup w of
                        Some existingCleanup \<Rightarrow> cleanup sock existingCleanup w
                      | None \<Rightarrow> w);
                w2 = w1\<lparr>wired := insert k (wired w1)\<rparr>;
                w3 = w2\<lparr>closeListeners := closeListeners w2 @ [k]\<rparr>;
                w4 = w3\<lparr>abortListeners := insert k (abortListeners w3)\<rparr>;
                w5 = w4\<lparr>cleanupSlot := Some k\<rparr>
            in if socketDestroyed w5 then onSocketClose sock k w5 else w5
          else w)"

text \<open>
  The whole function. The controller is allocated first; the URL, the headers, the body
  properties and the \<^verbatim>\<open>Request\<close> are made in this order, and the socket is wired only
  after the \<^verbatim>\<open>Request\<close> exists. So a call that throws has used up an identity and changed
  nothing else.
\<close>

definition createRequest ::
  "(string \<Rightarrow> 'd list \<Rightarrow> string \<Rightarrow> bool) \<Rightarrow> (string \<Rightarrow> 'u option) \<Rightarrow> ('u \<Rightarrow> bool) \<Rightarrow>
   node_request \<Rightarrow> 'd create_options \<Rightarrow> wiring \<Rightarrow> (js_error + 'u request) \<times> wiring" where
  "createRequest validateForwardedHost newURL includesCredentials req opts w =
     (let controller = nextController w;
          w0 = w\<lparr>nextController := Suc controller\<rparr>
      in case requestURL validateForwardedHost newURL req opts of
           Inl e \<Rightarrow> (Inl e, w0)
         | Inr u \<Rightarrow>
             (case requestInit req opts controller of
                Inl e \<Rightarrow> (Inl e, w0)
              | Inr options \<Rightarrow>
                  (case newRequest includesCredentials u options of
                     Inl e \<Rightarrow> (Inl e, w0)
                   | Inr request \<Rightarrow>
                       (Inr (request\<lparr>clientAddress := clientIp req\<rparr>),
                        wireAbort req controller w0))))"

section \<open>The response and the transport sink\<close>

text \<open>A \<^verbatim>\<open>ReadableStream\<close> by what reading it to the end yields: its chunks, and the error
  that ends it when there is one.\<close>

datatype body_stream = Chunks "string list" | ChunksThenError "string list" js_error

record response =
  status :: nat
  statusText :: string
  response_headers :: headers
  response_body :: "body_stream option"

text \<open>The \<^verbatim>\<open>ServerResponse\<close>: \<open>is_http2\<close> is \<^verbatim>\<open>instanceof Http2ServerResponse\<close>.\<close>

record server_response =
  is_http2 :: bool
  statusCode :: nat
  statusMessage :: "string option"
  sink_headers :: headers
  written :: "string list"
  ended :: bool
  destroyed :: bool

definition fresh_response :: server_response where
  "fresh_response =
     \<lparr>is_http2 = False, statusCode = 200, statusMessage = None, sink_headers = [],
      written = [], ended = False, destroyed = False\<rparr>"

text \<open>\<^verbatim>\<open>res.setHeader(name, value)\<close> replaces the header of that name, compared without case.\<close>

definition setHeader :: "string \<Rightarrow> string \<Rightarrow> server_response \<Rightarrow> server_response" where
  "setHeader name v res =
     res\<lparr>sink_headers :=
           filter (\<lambda>kv. toLowerCase (fst kv) \<noteq> toLowerCase name) (sink_headers res) @ [(name, v)]\<rparr>"

text \<open>\<^verbatim>\<open>res.writeHead(status, headers)\<close>: the headers given replace those of the same
  names set before. \<^verbatim>\<open>createOutgoingHttpHeaders\<close> is not part of these sources; it is
  taken to keep every entry of the \<^verbatim>\<open>Headers\<close> object.\<close>

definition writeHead :: "nat \<Rightarrow> headers \<Rightarrow> server_response \<Rightarrow> server_response" where
  "writeHead code hs res =
     res\<lparr>statusCode := code,
         sink_headers :=
           filter (\<lambda>kv. toLowerCase (fst kv) \<notin> set (map (toLowerCase \<circ> fst) hs)) (sink_headers res)
           @ hs\<rparr>"

text \<open>What one dispatch has done: the sink, the wiring of the transport request, the
  messages given to the adapter logger and to the console, how often the SSR fallback and
  the middleware were invoked, and the error the handler's promise rejects with.\<close>

record dispatch =
  d_res :: server_response
  d_wiring :: wiring
  d_log :: "string list"
  d_console :: "string list"
  d_ssr :: nat
  d_middleware :: nat
  d_thrown :: "js_error option"

definition fresh_dispatch :: dispatch where
  "fresh_dispatch =
     \<lparr>d_res = fresh_response, d_wiring = fresh_wiring, d_log = [], d_console = [],
      d_ssr = 0, d_middleware = 0, d_thrown = None\<rparr>"

text \<open>
  \<^verbatim>\<open>NodeApp.writeResponse\<close>. The sink finishes (or is destroyed) inside the call, so
  \<^verbatim>\<open>runCleanup\<close>, registered for \<^verbatim>\<open>'finish'\<close> and \<^verbatim>\<open>'close'\<close>, has run the cleanup found
  on \<^verbatim>\<open>destination.req\<close> when the call is over.
\<close>

definition writeResponse :: "response \<Rightarrow> node_request \<Rightarrow> dispatch \<Rightarrow> dispatch" where
  "writeResponse source req d =
     (let destination = d_res d;
          destination1 = (if \<not> is_http2 destination
                          then destination\<lparr>statusMessage := Some (statusText source)\<rparr>
                          else destination);
          destination2 = writeHead (status source) (response_headers source) destination1;
          cleanupAbortFromDestination = getAbortControllerCleanup (d_wiring d);
          destination3 =
            (case response_body source of
               None \<Rightarrow> destination2\<lparr>ended := True\<rparr>
             | Some (Chunks cs) \<Rightarrow>
                 destination2\<lparr>written := written destination2 @ cs, ended := True\<rparr>
             | Some (ChunksThenError cs err) \<Rightarrow>
                 destination2\<lparr>written := written destination2 @ cs @ [''Internal server error''],
                               destroyed := True\<rparr>);
          w = (case cleanupAbortFromDestination of
                 None \<Rightarrow> d_wiring d
               | Some k \<Rightarrow>
                   (case getRequestSocket req of
                      None \<Rightarrow> d_wiring d
                    | Some sock \<Rightarrow> cleanup sock k (d_wiring d)))
      in d\<lparr>d_res := destination3, d_wiring := w\<rparr>)"

section \<open>Middleware\<close>

text \<open>The \<^verbatim>\<open>APIContext\<close> by the fields these sources set.\<close>

record 'u api_context =
  ctx_request :: "'u request"
  ctx_params :: "(string \<times> string) list"
  ctx_defaultLocale :: string
  ctx_userDefinedLocales :: "string list"
  ctx_isPrerendered :: bool
  ctx_site :: "'u option"
  ctx_routePattern :: "string option"

text \<open>
  One run of a middleware handler, by what its caller can see: it throws (or its promise
  rejects), or it returns a response or nothing, has or has not called \<^verbatim>\<open>next()\<close>, and
  has left cookies on the context, listed as \<^verbatim>\<open>ctx.cookies.headers()\<close> lists them.
\<close>

datatype mw_result = MwThrows js_error | MwReturns "response option" bool "string list"

type_synonym 'u middleware = "'u api_context \<Rightarrow> mw_result"

record 'u middleware_module =
  onRequest :: "'u middleware option"

text \<open>\<^verbatim>\<open>manifest.middleware\<close>: a function that loads the module (and may reject), or the
  module.\<close>

datatype 'u manifest_middleware =
    MiddlewareLoader "js_error + 'u middleware_module option"
  | MiddlewareModule "'u middleware_module"

record route_data =
  prerender :: bool
  route :: string
  route_params :: "(string \<times> string) list option"

record header_entry =
  he_pathname :: string
  he_headers :: "(string \<times> string) list"

text \<open>
  The \<^verbatim>\<open>NodeApp\<close>. \<open>removeBase\<close>, \<open>super_match\<close> (\<^verbatim>\<open>App.match\<close>, which may throw),
  \<open>app_site\<close> (\<^verbatim>\<open>new URL(manifest.site)\<close>) and \<open>getAllowedDomains\<close> belong to the base
  class, which is not part of these sources. \<open>getUserDefinedLocales\<close> is the list that
  the method of that name reads from the i18n entry of the manifest.
\<close>

record ('d, 'u) node_app =
  manifest_middleware :: "'u manifest_middleware option"
  manifest_allowedDomains :: "'d list option"
  manifest_defaultLocale :: "string option"
  getUserDefinedLocales :: "string list"
  app_site :: "'u option"
  getAllowedDomains :: "'d list option"
  headersMap :: "header_entry list option"
  removeBase :: "string \<Rightarrow> string"
  super_match :: "'u request \<Rightarrow> bool \<Rightarrow> js_error + route_data option"

text \<open>
  What \<^verbatim>\<open>send\<close> does with a path, as the three listeners of the handler see it. It emits
  \<^verbatim>\<open>'error'\<close> before any \<^verbatim>\<open>'file'\<close> event. Or it serves a file: it emits \<^verbatim>\<open>'file'\<close> and
  \<^verbatim>\<open>'headers'\<close>, then sets some headers only where the response has none of that name
  (\<^verbatim>\<open>Accept-Ranges\<close>, \<^verbatim>\<open>Cache-Control\<close>, \<^verbatim>\<open>Last-Modified\<close>, \<^verbatim>\<open>ETag\<close>, \<^verbatim>\<open>Content-Type\<close>) and
  others in any case (\<^verbatim>\<open>Content-Length\<close>, \<^verbatim>\<open>Content-Range\<close>), sets the status code when
  the answer is partial or not modified, and writes the chunks. Or it emits \<^verbatim>\<open>'file'\<close> and
  then \<^verbatim>\<open>'error'\<close> with nothing written: before the \<^verbatim>\<open>'headers'\<close> event (\<open>None\<close>), or after
  it and after the headers of the first kind. An error of \<^verbatim>\<open>send\<close> is an \<^verbatim>\<open>Error\<close> object
  it has made, given by its \<^verbatim>\<open>toString()\<close>.
\<close>

datatype send_result =
    SendError string
  | SendStream "nat option" headers headers "string list"
  | SendFileThenError "headers option" string

text \<open>What the platform and the packages outside these sources supply.\<close>

record ('d, 'u) env =
  env_validateForwardedHost :: "string \<Rightarrow> 'd list \<Rightarrow> string \<Rightarrow> bool"
  env_newURL :: "string \<Rightarrow> 'u option"
  env_includesCredentials :: "'u \<Rightarrow> bool"
  env_pathJoin :: "string \<Rightarrow> string \<Rightarrow> string"
  env_lstatIsDirectory :: "string \<Rightarrow> bool option"
  env_hasFileExtension :: "string \<Rightarrow> bool"
  env_isInternalPath :: "string \<Rightarrow> bool"
  env_send :: "node_request \<Rightarrow> string \<Rightarrow> string \<Rightarrow> bool \<Rightarrow> send_result"

text \<open>\<^verbatim>\<open>NodeApp.match\<close> for a transport request: it throws what \<^verbatim>\<open>createRequest\<close> or
  \<^verbatim>\<open>App.match\<close> throws.\<close>

definition match ::
  "('d, 'u) env \<Rightarrow> ('d, 'u) node_app \<Rightarrow> node_request \<Rightarrow> bool \<Rightarrow> wiring \<Rightarrow>
   (js_error + route_data option) \<times> wiring" where
  "match env app req allowPrerenderedRoutes w =
     (case createRequest (env_validateForwardedHost env) (env_newURL env)
             (env_includesCredentials env) req
             \<lparr>skipBody = True,
              allowedDomains = (case manifest_allowedDomains app of Some ds \<Rightarrow> ds | None \<Rightarrow> [])\<rparr> w of
        (Inl e, w') \<Rightarrow> (Inl e, w')
      | (Inr request, w') \<Rightarrow> (super_match app request allowPrerenderedRoutes, w'))"

definition createMiddlewareContext ::
  "('d, 'u) node_app \<Rightarrow> 'u request \<Rightarrow> route_data option \<Rightarrow> 'u api_context" where
  "createMiddlewareContext app request routeData =
     \<lparr>ctx_request = request,
      ctx_params = (case routeData of
                      Some rd \<Rightarrow> (case route_params rd of Some ps \<Rightarrow> ps | None \<Rightarrow> [])
                    | None \<Rightarrow> []),
      ctx_defaultLocale = (case manifest_defaultLocale app of Some l \<Rightarrow> l | None \<Rightarrow> []),
      ctx_userDefinedLocales = getUserDefinedLocales app,
      ctx_isPrerendered = (case routeData of Some rd \<Rightarrow> prerender rd | None \<Rightarrow> False),
      ctx_site = app_site app,
      ctx_routePattern = (case routeData of Some rd \<Rightarrow> Some (route rd) | None \<Rightarrow> None)\<rparr>"

text \<open>\<^verbatim>\<open>response.headers.append('set-cookie', v)\<close> for every cookie of the context.\<close>

definition appendCookies :: "string list \<Rightarrow> response \<Rightarrow> response" where
  "appendCookies cookies r =
     r\<lparr>response_headers := response_headers r @ map (\<lambda>v. (''set-cookie'', v)) cookies\<rparr>"

text \<open>\<^verbatim>\<open>NodeApp.executeMiddlewareOnly\<close>: \<open>Inl\<close> is the error of the middleware, \<open>Inr\<close> the
  pair \<^verbatim>\<open>{handled, response}\<close>.\<close>

definition executeMiddlewareOnly ::
  "('d, 'u) node_app \<Rightarrow> 'u request \<Rightarrow> route_data option \<Rightarrow> 'u middleware \<Rightarrow>
   js_error + bool \<times> response option" where
  "executeMiddlewareOnly app request routeData middleware =
     (let ctx = createMiddlewareContext app request routeData
      in case middleware ctx of
           MwThrows e \<Rightarrow> Inl e
         | MwReturns response nextCalled cookies \<Rightarrow>
             (case response of
                Some r \<Rightarrow>
                  if \<not> nextCalled then Inr (True, Some (appendCookies cookies r))
                  else Inr (False, Some (appendCookies cookies r))
              | None \<Rightarrow> Inr (False, None)))"

section \<open>The static handler\<close>

datatype trailing_slash = Never | Ignore | Always

text \<open>The adapter's \<^verbatim>\<open>Options\<close>; \<open>client\<close> is the directory that \<^verbatim>\<open>resolveClientDir\<close>
  computes from them once, when the handler is created.\<close>

record options =
  client :: string
  assets :: string
  trailingSlash :: "trailing_slash option"
  runMiddlewareOnRequest :: bool

definition prependForwardSlash :: "string \<Rightarrow> string" where
  "prependForwardSlash pth = (if prefix ''/'' pth then pth else ''/'' @ pth)"

definition appendForwardSlash :: "string \<Rightarrow> string" where
  "appendForwardSlash pth = (if suffix ''/'' pth then pth else pth @ ''/'')"

text \<open>The alternatives of the regular expression
  \<^verbatim>\<open>/\.(?:css|js|json|xml|txt|ico|png|jpg|jpeg|gif|svg|woff|woff2|ttf|eot|webp|avif|map)$/i\<close>.\<close>

definition asset_extensions :: "string list" where
  "asset_extensions =
     [''css'', ''js'', ''json'', ''xml'', ''txt'', ''ico'', ''png'', ''jpg'', ''jpeg'', ''gif'',
      ''svg'', ''woff'', ''woff2'', ''ttf'', ''eot'', ''webp'', ''avif'', ''map'']"

definition test_asset_extension :: "string \<Rightarrow> bool" where
  "test_asset_extension urlPath =
     list_ex (\<lambda>ext. suffix (''.'' @ ext) (toLowerCase urlPath)) asset_extensions"

definition isPrerenderedHTMLPage :: "string \<Rightarrow> bool" where
  "isPrerenderedHTMLPage urlPath =
     (if prefix ''/_astro/'' urlPath \<or> test_asset_extension urlPath then False else True)"

text \<open>\<^verbatim>\<open>createContext({request, params: {}, locals: {}, defaultLocale: ''})\<close>, then
  \<^verbatim>\<open>ctx.isPrerendered = true\<close>.\<close>

definition staticContext :: "'u request \<Rightarrow> 'u api_context" where
  "staticContext request =
     \<lparr>ctx_request = request, ctx_params = [], ctx_defaultLocale = [],
      ctx_userDefinedLocales = [], ctx_isPrerendered = True, ctx_site = None,
      ctx_routePattern = None\<rparr>"

text \<open>\<^verbatim>\<open>executeMiddlewareForStatic\<close> of the static handler's module: \<open>Inl\<close> is what it
  throws, \<open>Inr\<close> the boolean it returns. The cookies of the context are not read.\<close>

definition executeMiddlewareForStatic ::
  "('d, 'u) env \<Rightarrow> node_request \<Rightarrow> 'u middleware \<Rightarrow> ('d, 'u) node_app \<Rightarrow> dispatch \<Rightarrow>
   (js_error + bool) \<times> dispatch" where
  "executeMiddlewareForStatic env req middleware app d =
     (case createRequest (env_validateForwardedHost env) (env_newURL env)
             (env_includesCredentials env) req
             \<lparr>skipBody = False,
              allowedDomains = (case getAllowedDomains app of Some ds \<Rightarrow> ds | None \<Rightarrow> [])\<rparr>
             (d_wiring d) of
        (Inl e, w) \<Rightarrow> (Inl e, d\<lparr>d_wiring := w\<rparr>)
      | (Inr request, w) \<Rightarrow>
          let ctx = staticContext request;
              d1 = d\<lparr>d_wiring := w, d_middleware := Suc (d_middleware d)\<rparr>
          in (case middleware ctx of
                MwThrows e \<Rightarrow> (Inl e, d1)
              | MwReturns response nextCalled cookies \<Rightarrow>
                  (case response of
                     Some r \<Rightarrow>
                       if \<not> nextCalled then (Inr True, writeResponse r req d1)
                       else (Inr False, d1)
                   | None \<Rightarrow> (Inr False, d1))))"

text \<open>The body of the \<^verbatim>\<open>try\<close> of lines 30 to 54: \<open>Inr handled\<close>, or the error that
  reaches the \<^verbatim>\<open>catch\<close>.\<close>

definition tryMiddleware ::
  "('d, 'u) env \<Rightarrow> ('d, 'u) node_app \<Rightarrow> node_request \<Rightarrow> dispatch \<Rightarrow> (js_error + bool) \<times> dispatch" where
  "tryMiddleware env app req d =
     (case manifest_middleware app of
        None \<Rightarrow> (Inr False, d)
      | Some m \<Rightarrow>
          (case (case m of MiddlewareLoader loaded \<Rightarrow> loaded
                         | MiddlewareModule module \<Rightarrow> Inr (Some module)) of
             Inl e \<Rightarrow> (Inl e, d)
           | Inr None \<Rightarrow> (Inr False, d)
           | Inr (Some middlewareModule) \<Rightarrow>
               (case onRequest middlewareModule of
                  None \<Rightarrow> (Inr False, d)
                | Some handler \<Rightarrow> executeMiddlewareForStatic env req handler app d)))"

text \<open>Lines 72 to 82: the headers of the header map.\<close>

definition injectHeaders ::
  "('d, 'u) env \<Rightarrow> ('d, 'u) node_app \<Rightarrow> node_request \<Rightarrow> string \<Rightarrow> dispatch \<Rightarrow>
   (js_error + unit) \<times> dispatch" where
  "injectHeaders env app req pathname d =
     (case headersMap app of
        None \<Rightarrow> (Inr (), d)
      | Some hm \<Rightarrow>
          if length hm > 0 then
            (case match env app req True (d_wiring d) of
               (Inl e, w) \<Rightarrow> (Inl e, d\<lparr>d_wiring := w\<rparr>)
             | (Inr routeData, w) \<Rightarrow>
                 (case routeData of
                    None \<Rightarrow> (Inr (), d\<lparr>d_wiring := w\<rparr>)
                  | Some rd \<Rightarrow>
                      if prerender rd then
                        (case find (\<lambda>h. sublist pathname (he_pathname h)) hm of
                           None \<Rightarrow> (Inr (), d\<lparr>d_wiring := w\<rparr>)
                         | Some matchedRoute \<Rightarrow>
                             (Inr (), d\<lparr>d_wiring := w,
                                        d_res := fold (\<lambda>h. setHeader (fst h) (snd h))
                                                   (he_headers matchedRoute) (d_res d)\<rparr>))
                      else (Inr (), d\<lparr>d_wiring := w\<rparr>)))
          else (Inr (), d))"

text \<open>\<^verbatim>\<open>res.statusCode = 301; res.setHeader('Location', pathname); return res.end()\<close>\<close>

definition redirect301 :: "string \<Rightarrow> dispatch \<Rightarrow> dispatch" where
  "redirect301 pathname d =
     d\<lparr>d_res := (setHeader ''Location'' pathname ((d_res d)\<lparr>statusCode := 301\<rparr>))\<lparr>ended := True\<rparr>\<rparr>"

text \<open>\<^verbatim>\<open>!res.getHeader(name)\<close>: no header of that name, or an empty one.\<close>

definition headerAbsent :: "string \<Rightarrow> server_response \<Rightarrow> bool" where
  "headerAbsent name res =
     (\<not> list_ex (\<lambda>kv. toLowerCase (fst kv) = toLowerCase name \<and> snd kv \<noteq> []) (sink_headers res))"

definition setHeaderIfAbsent :: "string \<Rightarrow> string \<Rightarrow> server_response \<Rightarrow> server_response" where
  "setHeaderIfAbsent name v res = (if headerAbsent name res then setHeader name v res else res)"

text \<open>The listener of \<^verbatim>\<open>'headers'\<close>, lines 136 to 144.\<close>

definition onHeaders :: "options \<Rightarrow> string \<Rightarrow> server_response \<Rightarrow> server_response" where
  "onHeaders opts pathname res =
     (if prefix (''/'' @ assets opts @ ''/'') pathname
      then setHeader ''Cache-Control'' ''public, max-age=31536000, immutable'' res
      else res)"

text \<open>The listener of \<^verbatim>\<open>'error'\<close> once \<^verbatim>\<open>forwardError\<close> is set, lines 127 to 132.\<close>

definition onErrorAfterFile :: "string \<Rightarrow> dispatch \<Rightarrow> dispatch" where
  "onErrorAfterFile err d =
     (let res1 = writeHead 500 [] (d_res d)
      in d\<lparr>d_console := d_console d @ [err],
           d_res := res1\<lparr>written := written res1 @ [''Internal server error''], ended := True\<rparr>\<rparr>)"

text \<open>Lines 116 to 148: \<^verbatim>\<open>send\<close>, its three listeners and \<^verbatim>\<open>stream.pipe(res)\<close>.\<close>

definition pipeFile ::
  "('d, 'u) env \<Rightarrow> ('d, 'u) node_app \<Rightarrow> options \<Rightarrow> node_request \<Rightarrow> string \<Rightarrow> dispatch \<Rightarrow> dispatch" where
  "pipeFile env app opts req pathname0 d =
     (let pathname = prependForwardSlash (removeBase app pathname0)
      in case env_send env req pathname (client opts) (prefix ''/.well-known/'' pathname) of
           SendError err \<Rightarrow> d\<lparr>d_ssr := Suc (d_ssr d)\<rparr>
         | SendStream code optional forced chunks \<Rightarrow>
             let res1 = onHeaders opts pathname (d_res d);
                 res2 = fold (\<lambda>h. setHeaderIfAbsent (fst h) (snd h)) optional res1;
                 res3 = fold (\<lambda>h. setHeader (fst h) (snd h)) forced res2;
                 res4 = (case code of Some c \<Rightarrow> res3\<lparr>statusCode := c\<rparr> | None \<Rightarrow> res3)
             in d\<lparr>d_res := res4\<lparr>written := written res4 @ chunks, ended := True\<rparr>\<rparr>
         | SendFileThenError None err \<Rightarrow> onErrorAfterFile err d
         | SendFileThenError (Some optional) err \<Rightarrow>
             onErrorAfterFile err
               (d\<lparr>d_res := fold (\<lambda>h. setHeaderIfAbsent (fst h) (snd h)) optional
                               (onHeaders opts pathname (d_res d))\<rparr>))"

text \<open>\<^verbatim>\<open>(urlQuery ? '?' + urlQuery : '')\<close>\<close>

definition querySuffix :: "string option \<Rightarrow> string" where
  "querySuffix urlQuery =
     (case urlQuery of
        None \<Rightarrow> []
      | Some q \<Rightarrow> if q \<noteq> [] then ''?'' @ q else [])"

text \<open>Lines 62 to 148: everything after the middleware block.\<close>

definition serveStatic ::
  "('d, 'u) env \<Rightarrow> ('d, 'u) node_app \<Rightarrow> options \<Rightarrow> node_request \<Rightarrow>
   string \<Rightarrow> string option \<Rightarrow> string \<Rightarrow> dispatch \<Rightarrow> dispatch" where
  "serveStatic env app opts req urlPath urlQuery filePath d =
     (let isDirectory = (case env_lstatIsDirectory env filePath of Some b \<Rightarrow> b | None \<Rightarrow> False);
          trailing = (case trailingSlash opts of Some t \<Rightarrow> t | None \<Rightarrow> Ignore);
          hasSlash = suffix ''/'' urlPath
      in case injectHeaders env app req urlPath d of
           (Inl e, d1) \<Rightarrow> d1\<lparr>d_thrown := Some e\<rparr>
         | (Inr u, d1) \<Rightarrow>
             (case trailing of
                Never \<Rightarrow>
                  if isDirectory \<and> urlPath \<noteq> ''/'' \<and> hasSlash
                  then redirect301 (butlast urlPath @ querySuffix urlQuery) d1
                  else pipeFile env app opts req
                         (if isDirectory \<and> \<not> hasSlash then urlPath @ ''/index.html'' else urlPath) d1
              | Ignore \<Rightarrow>
                  pipeFile env app opts req
                    (if isDirectory \<and> \<not> hasSlash then urlPath @ ''/index.html'' else urlPath) d1
              | Always \<Rightarrow>
                  if \<not> hasSlash \<and> \<not> env_hasFileExtension env urlPath \<and> \<not> env_isInternalPath env urlPath
                  then redirect301 (urlPath @ ''/'' @ querySuffix urlQuery) d1
                  else pipeFile env app opts req urlPath d1))"

text \<open>
  Lines 29 to 60, the middleware block with its \<^verbatim>\<open>catch\<close>: \<open>Inr handled\<close>, or what the
  \<^verbatim>\<open>catch\<close> itself throws when the error cannot be written into the log message.
\<close>

definition middlewareBlock ::
  "('d, 'u) env \<Rightarrow> ('d, 'u) node_app \<Rightarrow> options \<Rightarrow> node_request \<Rightarrow> string \<Rightarrow> dispatch \<Rightarrow>
   (js_error + bool) \<times> dispatch" where
  "middlewareBlock env app opts req urlPath d =
     (if runMiddlewareOnRequest opts \<and> isPrerenderedHTMLPage urlPath then
        (case tryMiddleware env app req d of
           (Inr handled, d1) \<Rightarrow> (Inr handled, d1)
         | (Inl err, d1) \<Rightarrow>
             (case error_toString err of
                Inl e \<Rightarrow> (Inl e, d1)
              | Inr msg \<Rightarrow>
                  (Inr False,
                   d1\<lparr>d_log := d_log d1 @ [''Error executing middleware for static page: '' @ msg]\<rparr>)))
      else (Inr False, d))"

text \<open>
  The listener that \<^verbatim>\<open>createStaticHandler\<close> returns, run on a request and a sink.
  \<^verbatim>\<open>[urlPath, urlQuery] = req.url.split('?')\<close> takes the first two pieces of the split.
\<close>

definition createStaticHandler ::
  "('d, 'u) env \<Rightarrow> ('d, 'u) node_app \<Rightarrow> options \<Rightarrow> node_request \<Rightarrow> dispatch \<Rightarrow> dispatch" where
  "createStaticHandler env app opts req d =
     (case req_url req of
        None \<Rightarrow> d\<lparr>d_ssr := Suc (d_ssr d)\<rparr>
      | Some u \<Rightarrow>
          if u = [] then d\<lparr>d_ssr := Suc (d_ssr d)\<rparr>
          else
            let pieces = js_split CHR ''?'' u;
                urlPath = hd pieces;
                urlQuery = (case tl pieces of [] \<Rightarrow> None | q # _ \<Rightarrow> Some q);
                filePath = env_pathJoin env (client opts) (removeBase app urlPath)
            in case middlewareBlock env app opts req urlPath d of
                 (Inl e, d1) \<Rightarrow> d1\<lparr>d_thrown := Some e\<rparr>
               | (Inr handled, d1) \<Rightarrow>
                   if handled then d1
                   else serveStatic env app opts req urlPath urlQuery filePath d1)"

section \<open>Histories of one transport request\<close>

text \<open>
  What can happen to the wiring of one transport request: it is adapted (again), its
  socket emits \<^verbatim>\<open>'close'\<close>, its socket is marked destroyed, or somebody who holds the
  \<^verbatim>\<open>cleanup\<close> closure of an earlier adaptation calls it, as \<^verbatim>\<open>runCleanup\<close> of
  \<^verbatim>\<open>writeResponse\<close> does. \<^verbatim>\<open>emit\<close> calls the listeners registered when it starts.
\<close>

datatype event = Adapt | SocketClose | SocketDestroy | RunCleanup nat

definition emitClose :: "socket \<Rightarrow> wiring \<Rightarrow> wiring" where
  "emitClose sock w = fold (onSocketClose sock) (closeListeners w) w"

definition step ::
  "(string \<Rightarrow> 'd list \<Rightarrow> string \<Rightarrow> bool) \<Rightarrow> (string \<Rightarrow> 'u option) \<Rightarrow> ('u \<Rightarrow> bool) \<Rightarrow>
   node_request \<Rightarrow> 'd create_options \<Rightarrow> event \<Rightarrow> wiring \<Rightarrow> wiring" where
  "step V U C req opts ev w =
     (case ev of
        Adapt \<Rightarrow> snd (createRequest V U C req opts w)
      | SocketClose \<Rightarrow>
          (case getRequestSocket req of Some sock \<Rightarrow> emitClose sock w | None \<Rightarrow> w)
      | SocketDestroy \<Rightarrow> w\<lparr>socketDestroyed := True\<rparr>
      | RunCleanup k \<Rightarrow>
          (case getRequestSocket req of
             Some sock \<Rightarrow> if k \<in> wired w then cleanup sock k w else w
           | None \<Rightarrow> w))"

definition run ::
  "(string \<Rightarrow> 'd list \<Rightarrow> string \<Rightarrow> bool) \<Rightarrow> (string \<Rightarrow> 'u option) \<Rightarrow> ('u \<Rightarrow> bool) \<Rightarrow>
   node_request \<Rightarrow> 'd create_options \<Rightarrow> event list \<Rightarrow> wiring \<Rightarrow> wiring" where
  "run V U C req opts evs w = fold (step V U C req opts) evs w"

text \<open>The counters agree with the flags: a body that ran has set its flag, and a flag is
  set by one run only.\<close>

definition counts_ok :: "wiring \<Rightarrow> bool" where
  "counts_ok w =
     ((\<forall>k. cleanupRuns w k = (if k \<in> cleanedUp w then 1 else 0)) \<and>
      (\<forall>k. abortEvents w k = (if k \<in> aborted w then 1 else 0)))"

definition removable :: "socket \<Rightarrow> bool" where
  "removable sock = (has_off sock \<or> has_removeListener sock)"

text \<open>On a socket that can remove listeners, the closure stored on the request is the
  only one still listening, and the only one that has not cleaned up.\<close>

definition wiring_inv :: "wiring \<Rightarrow> bool" where
  "wiring_inv w =
     (closeListeners w = (case cleanupSlot w of None \<Rightarrow> [] | Some k \<Rightarrow> [k]) \<and>
      abortListeners w = set_option (cleanupSlot w) \<and>
      wired w - cleanedUp w = set_option (cleanupSlot w) \<and>
      wired w \<subseteq> {..<nextController w} \<and>
      cleanedUp w \<subseteq> wired w \<and>
      aborted w \<subseteq> cleanedUp w)"

section \<open>Auxiliary notions for the static handler\<close>

text \<open>The header map is not consulted, or \<^verbatim>\<open>app.match\<close> does not throw on the request in
  the state of the dispatch: neither \<^verbatim>\<open>createRequest\<close> with its \<^verbatim>\<open>Headers\<close> and \<^verbatim>\<open>Request\<close>
  nor \<^verbatim>\<open>App.match\<close> does.\<close>

definition headerInjectionCompletes ::
  "('d, 'u) env \<Rightarrow> ('d, 'u) node_app \<Rightarrow> node_request \<Rightarrow> dispatch \<Rightarrow> bool" where
  "headerInjectionCompletes env app req d =
     (case headersMap app of
        None \<Rightarrow> True
      | Some hm \<Rightarrow> hm = [] \<or> \<not> isl (fst (match env app req True (d_wiring d))))"

text \<open>The request target: a path, alone or followed by a question mark and the query.\<close>

definition target :: "string \<Rightarrow> string option \<Rightarrow> string" where
  "target path query = path @ (case query of None \<Rightarrow> [] | Some q \<Rightarrow> ''?'' @ q)"

text \<open>What the handler takes for the query: the text between the first and the second
  question mark of the request target.\<close>

definition urlQuery_of :: "string option \<Rightarrow> string option" where
  "urlQuery_of query = map_option (\<lambda>q. hd (js_split CHR ''?'' q)) query"

text \<open>The same run of a middleware with nothing in the cookie jar.\<close>

fun without_cookies :: "mw_result \<Rightarrow> mw_result" where
  "without_cookies (MwThrows e) = MwThrows e"
| "without_cookies (MwReturns response nextCalled cookies) = MwReturns response nextCalled []"

fun forget_cookies :: "'u manifest_middleware \<Rightarrow> 'u manifest_middleware" where
  "forget_cookies (MiddlewareLoader (Inl e)) = MiddlewareLoader (Inl e)"
| "forget_cookies (MiddlewareLoader (Inr None)) = MiddlewareLoader (Inr None)"
| "forget_cookies (MiddlewareLoader (Inr (Some m))) =
     MiddlewareLoader (Inr (Some (m\<lparr>onRequest := map_option (\<lambda>h. without_cookies \<circ> h) (onRequest m)\<rparr>)))"
| "forget_cookies (MiddlewareModule m) =
     MiddlewareModule (m\<lparr>onRequest := map_option (\<lambda>h. without_cookies \<circ> h) (onRequest m)\<rparr>)"

section \<open>Concrete requests and configurations\<close>

definition ex_socket :: socket where
  "ex_socket =
     \<lparr>encrypted = False, remoteAddress = Some ''10.0.0.1'',
      has_on = True, has_off = True, has_removeListener = True\<rparr>"

definition ex_request :: "string option \<Rightarrow> string \<Rightarrow> (string \<times> header_value) list \<Rightarrow> node_request" where
  "ex_request m u hs =
     \<lparr>req_method = m, req_url = Some u, req_headers = hs, req_body = BodyUndefined,
      req_disturbed = False, req_socket = ex_socket, req_stream_session_socket = None\<rparr>"

text \<open>\<^verbatim>\<open>GET /\<close> with \<^verbatim>\<open>Host: example.com\<close> and \<^verbatim>\<open>X-Forwarded-Port: abc\<close>.\<close>

definition req_bad_port :: node_request where
  "req_bad_port =
     ex_request (Some ''GET'') ''/''
       [(''host'', HString ''example.com''), (''x-forwarded-port'', HString ''abc'')]"

text \<open>\<^verbatim>\<open>GET /admin/users\<close> with \<^verbatim>\<open>Host: example.com\<close> and an empty
  \<^verbatim>\<open>X-Forwarded-Host\<close>.\<close>

definition req_empty_forwarded_host :: node_request where
  "req_empty_forwarded_host =
     ex_request (Some ''GET'') ''/admin/users''
       [(''host'', HString ''example.com''), (''x-forwarded-host'', HString [])]"

definition req_forwarded_host :: node_request where
  "req_forwarded_host =
     ex_request (Some ''GET'') ''/''
       [(''host'', HString ''example.com''), (''x-forwarded-host'', HString ''evil.test, b'')]"

definition req_post :: node_request where
  "req_post = ex_request (Some ''POST'') ''/api'' [(''host'', HString ''example.com'')]"

definition req_page :: "string \<Rightarrow> node_request" where
  "req_page u = ex_request (Some ''GET'') u [(''host'', HString ''example.com'')]"

text \<open>A trust policy with an empty allow-list, a \<^verbatim>\<open>URL\<close> constructor that accepts every
  string (none of the URLs below has a user name or a password), and a client directory \<^verbatim>\<open>/client\<close> that holds the directory \<^verbatim>\<open>blog\<close> and the
  page \<^verbatim>\<open>/set-cookie-page\<close>.\<close>

definition ex_opts :: "unit create_options" where
  "ex_opts = default_create_options"

definition reject_all :: "string \<Rightarrow> unit list \<Rightarrow> string \<Rightarrow> bool" where
  "reject_all h ds p = False"

definition accept_url :: "string \<Rightarrow> string option" where
  "accept_url s = Some s"

definition no_credentials :: "string \<Rightarrow> bool" where
  "no_credentials u = False"

definition ex_env :: "(unit, string) env" where
  "ex_env =
     \<lparr>env_validateForwardedHost = reject_all,
      env_newURL = accept_url,
      env_includesCredentials = no_credentials,
      env_pathJoin = (\<lambda>a b. a @ b),
      env_lstatIsDirectory = (\<lambda>p. if p = ''/client/blog/'' then Some True
                                   else if p = ''/client/set-cookie-page'' then Some False
                                   else None),
      env_hasFileExtension = (\<lambda>p. False),
      env_isInternalPath = (\<lambda>p. False),
      env_send = (\<lambda>req pathname root dotfiles.
                    if pathname = ''/set-cookie-page''
                    then SendStream None [(''Content-Type'', ''text/html'')] [] [''<h1>Static Page</h1>'']
                    else SendError ''NotFoundError: Not Found'')\<rparr>"

definition ex_app :: "string manifest_middleware option \<Rightarrow> (unit, string) node_app" where
  "ex_app mw =
     \<lparr>manifest_middleware = mw, manifest_allowedDomains = None, manifest_defaultLocale = None,
      getUserDefinedLocales = [], app_site = None, getAllowedDomains = None, headersMap = None,
      removeBase = (\<lambda>p. p), super_match = (\<lambda>r a. Inr None)\<rparr>"

definition ex_module :: "string middleware \<Rightarrow> string manifest_middleware option" where
  "ex_module h = Some (MiddlewareModule \<lparr>onRequest = Some h\<rparr>)"

definition ex_options :: "trailing_slash option \<Rightarrow> bool \<Rightarrow> options" where
  "ex_options ts mw =
     \<lparr>client = ''/client'', assets = ''_astro'', trailingSlash = ts, runMiddlewareOnRequest = mw\<rparr>"

text \<open>The middleware of the test fixture on \<^verbatim>\<open>/set-cookie-page\<close>: it awaits \<^verbatim>\<open>next()\<close>,
  sets a cookie on the context and returns the response it was given.\<close>

definition mw_sets_cookie :: "string middleware" where
  "mw_sets_cookie ctx =
     MwReturns (Some \<lparr>status = 200, statusText = [], response_headers = [(''x-middleware-ran'', ''true'')],
                      response_body = None\<rparr>)
       True [''middleware-cookie=value; Path=/; HttpOnly'']"

text \<open>A middleware that sets a cookie on the context and redirects without calling
  \<^verbatim>\<open>next()\<close>.\<close>

definition mw_redirects :: "string middleware" where
  "mw_redirects ctx =
     MwReturns (Some \<lparr>status = 302, statusText = [], response_headers = [(''Location'', ''/login'')],
                      response_body = None\<rparr>)
       False [''sid=1; Path=/'']"

definition mw_blocks :: "string middleware" where
  "mw_blocks ctx =
     MwReturns (Some \<lparr>status = 403, statusText = [], response_headers = [],
                      response_body = Some (Chunks [''Access denied''])\<rparr>)
       False []"

definition mw_throws :: "string middleware" where
  "mw_throws ctx = MwThrows (Error ''boom'')"

text \<open>A middleware that runs \<^verbatim>\<open>throw Symbol('boom')\<close>: the value thrown has no conversion
  to a string.\<close>

definition mw_throws_symbol :: "string middleware" where
  "mw_throws_symbol ctx =
     MwThrows (Unprintable (TypeError ''Cannot convert a Symbol value to a string''))"

text \<open>A \<^verbatim>\<open>URL\<close> constructor that rejects the strings with the port \<^verbatim>\<open>abc\<close>, as the
  platform's does for a port that is not a number, and accepts every other string.\<close>

definition reject_port_abc :: "string \<Rightarrow> string option" where
  "reject_port_abc s = (if sublist '':abc'' s then None else Some s)"

text \<open>An application with a header map for the prerendered route \<^verbatim>\<open>/blog/\<close>.\<close>

definition ex_app_headers :: "string manifest_middleware option \<Rightarrow> (unit, string) node_app" where
  "ex_app_headers mw =
     (ex_app mw)\<lparr>headersMap :=
        Some [\<lparr>he_pathname = ''/blog/'', he_headers = [(''X-Frame-Options'', ''DENY'')]\<rparr>],
      super_match :=
        (\<lambda>r a. Inr (Some \<lparr>prerender = True, route = ''/blog'', route_params = None\<rparr>))\<rparr>"

definition req_blog_bad_port :: node_request where
  "req_blog_bad_port =
     ex_request (Some ''GET'') ''/blog/''
       [(''host'', HString ''example.com''), (''x-forwarded-port'', HString ''abc'')]"


section \<open>Facts about NodeApp.createRequest\<close>

lemmas url_defs =
  primaryURLString_def fallbackURLString_def protocol_def forwardedProtocol_def
  providedProtocol_def isEncrypted_def hostname_def forwardedHostname_def providedHostname_def
  port_def getHostnamePort_def getFirstForwardedValue_def header_def js_trim_def
  isWhiteSpace_def test_port_suffix_def isDigit_def

lemmas ex_defs =
  ex_request_def ex_socket_def req_bad_port_def req_empty_forwarded_host_def
  req_forwarded_host_def req_post_def req_page_def ex_opts_def default_create_options_def
  reject_all_def accept_url_def no_credentials_def

lemma createRequest_fst:
  "fst (createRequest V U C req opts w) =
     (case requestURL V U req opts of
        Inl e \<Rightarrow> Inl e
      | Inr u \<Rightarrow>
          (case requestInit req opts (nextController w) of
             Inl e \<Rightarrow> Inl e
           | Inr options \<Rightarrow>
               (case newRequest C u options of
                  Inl e \<Rightarrow> Inl e
                | Inr request \<Rightarrow> Inr (request\<lparr>clientAddress := clientIp req\<rparr>))))"
  by (simp add: createRequest_def Let_def split: sum.splits)

text \<open>A call that throws leaves the wiring alone; a call that returns has wired the
  controller it allocated.\<close>

lemma createRequest_snd:
  "snd (createRequest V U C req opts w) =
     (if isl (fst (createRequest V U C req opts w))
      then w\<lparr>nextController := Suc (nextController w)\<rparr>
      else wireAbort req (nextController w) (w\<lparr>nextController := Suc (nextController w)\<rparr>))"
  by (simp add: createRequest_def Let_def split: sum.splits)

lemma requestURL_isl:
  "isl (requestURL V U req opts) =
     (U (primaryURLString V req opts) = None \<and> U (fallbackURLString req) = None)"
  by (simp add: requestURL_def split: option.splits)

text \<open>The URL, the headers, the client address and the wiring read the headers, the
  target and the sockets of the transport request, and nothing else of it.\<close>

lemma header_cong:
  assumes "req_headers r' = req_headers r"
  shows "header r' = header r"
  using assms by (intro ext) (simp add: header_def)

lemma requestURL_cong:
  assumes "req_headers r' = req_headers r" and "req_url r' = req_url r"
    and "req_socket r' = req_socket r"
  shows "requestURL V U r' opts = requestURL V U r opts"
proof -
  note h = header_cong [OF assms(1)]
  have a: "forwardedProtocol r' = forwardedProtocol r" "providedProtocol r' = providedProtocol r"
    "providedHostname r' = providedHostname r" "port r' = port r"
    by (simp_all add: forwardedProtocol_def providedProtocol_def isEncrypted_def
          providedHostname_def port_def h assms(3) cong: option.case_cong)
  have b: "protocol r' = protocol r" "hostname V r' opts = hostname V r opts"
    by (simp_all add: protocol_def hostname_def forwardedHostname_def a h
          cong: option.case_cong if_cong)
  show ?thesis
    by (simp add: requestURL_def primaryURLString_def fallbackURLString_def a b assms(2)
          cong: option.case_cong)
qed

lemma clientIp_cong:
  assumes "req_headers r' = req_headers r" and "req_socket r' = req_socket r"
  shows "clientIp r' = clientIp r"
  by (simp add: clientIp_def header_cong [OF assms(1)] assms(2) cong: option.case_cong if_cong)

lemma wireAbort_cong:
  assumes "req_socket r' = req_socket r"
    and "req_stream_session_socket r' = req_stream_session_socket r"
  shows "wireAbort r' k w = wireAbort r k w"
  by (simp add: wireAbort_def getRequestSocket_def assms)

lemma makeRequestHeaders_cong:
  assumes "req_headers r' = req_headers r"
  shows "makeRequestHeaders r' = makeRequestHeaders r"
  by (simp add: makeRequestHeaders_def assms)

text \<open>So two transport requests that agree on these and give the same
  \<^verbatim>\<open>RequestInit\<close> are adapted alike.\<close>

lemma createRequest_cong:
  assumes "req_headers r' = req_headers r" and "req_url r' = req_url r"
    and "req_socket r' = req_socket r"
    and "req_stream_session_socket r' = req_stream_session_socket r"
    and "requestInit r' opts (nextController w) = requestInit r opts (nextController w)"
  shows "createRequest V U C r' opts w = createRequest V U C r opts w"
  by (simp add: createRequest_def Let_def requestURL_cong [OF assms(1,2,3)]
        clientIp_cong [OF assms(1,3)] wireAbort_cong [OF assms(3,4)] assms(5)
        cong: sum.case_cong)

text \<open>Without a body the constructor asks for a URL without credentials and a method it
  accepts.\<close>

lemma newRequest_no_body:
  assumes "init_body options = None" and "init_duplex options = None"
  shows "newRequest C u options =
     (if C u then Inl (TypeError ''Request cannot be constructed from a URL that includes credentials'')
      else case normalizeMethod (init_method options) of
             Inl e \<Rightarrow> Inl e
           | Inr m \<Rightarrow>
               Inr \<lparr>url = u, request_method = m, request_headers = init_headers options,
                    body = None, signal = init_signal options, clientAddress = None\<rparr>)"
  using assms by (simp add: newRequest_def split: sum.splits)

lemma normalizeMethod_GET: "normalizeMethod ''GET'' = Inr ''GET''"
  by code_simp

text \<open>
  What the platform refuses: the pseudo-headers of an HTTP/2 request are no header names
  for \<^verbatim>\<open>Headers.append\<close>, \<^verbatim>\<open>TRACE\<close> is no method for \<^verbatim>\<open>new Request\<close>, and a transport
  stream that a body parser has read is no body. Each of these calls throws, and the
  wiring has lost an identity and nothing else.
\<close>

lemma createRequest_platform_errors:
  "createRequest reject_all accept_url no_credentials
     (ex_request (Some ''GET'') ''/'' [('':authority'', HString ''example.com''), ('':method'', HString ''GET'')])
     ex_opts fresh_wiring =
     (Inl (TypeError ''Headers.append: :authority is an invalid header name.''),
      fresh_wiring\<lparr>nextController := 1\<rparr>)"
  "createRequest reject_all accept_url no_credentials
     (ex_request (Some ''TRACE'') ''/'' [(''host'', HString ''example.com'')]) ex_opts fresh_wiring =
     (Inl (TypeError ''TRACE HTTP method is unsupported.''), fresh_wiring\<lparr>nextController := 1\<rparr>)"
  "createRequest reject_all accept_url no_credentials
     (req_post\<lparr>req_body := BodyObject [] None (Inr ''{}''), req_disturbed := True\<rparr>)
     ex_opts fresh_wiring =
     (Inl (TypeError ''Response body object should not be disturbed or locked''),
      fresh_wiring\<lparr>nextController := 1\<rparr>)"
  by (simp_all add: createRequest_def requestURL_def url_defs ex_defs requestInit_def
        makeRequestHeaders_def append_header_def isValidHTTPToken_def isTchar_def
        isValidHeaderValue_def headerValueNormalize_def isHTTPWhiteSpace_def
        method_or_GET_def bodyAllowed_def makeRequestBody_def asyncIterableToBodyProps_def
        newRequest_def normalizeMethod_def toUpperCase_def toUpperChar_def Let_def
        fresh_wiring_def)

lemma ex_url_page:
  "requestURL reject_all accept_url (req_page u) opts = Inr (''http://example.com'' @ u)"
  by (simp add: requestURL_def url_defs ex_defs)

lemma ex_url_post:
  "requestURL reject_all accept_url req_post opts = Inr ''http://example.com/api''"
  by (simp add: requestURL_def url_defs ex_defs)

text \<open>
  Claim C1 says that \<^verbatim>\<open>createRequest\<close> never throws, because the fallback ignores every
  forwarded value and always parses. The fallback of the code still appends the
  forwarded port. For \<^verbatim>\<open>GET /\<close> with \<^verbatim>\<open>Host: example.com\<close> and
  \<^verbatim>\<open>X-Forwarded-Port: abc\<close> the two strings handed to the \<^verbatim>\<open>URL\<close> constructor are
  \<^verbatim>\<open>http://example.com:abc/\<close> and \<^verbatim>\<open>http://example.com:abc\<close>, and the call throws
  the constructor's error exactly when the constructor rejects both, as it does for a port
  that is not a number. The headers and the method of this request are accepted, so the
  only other way for the call to throw is a URL with a user name or a password.
\<close>

theorem C1_fallback_keeps_forwarded_port:
  "primaryURLString V req_bad_port opts = ''http://example.com:abc/'' \<and>
   fallbackURLString req_bad_port = ''http://example.com:abc'' \<and>
   isl (requestURL V U req_bad_port opts) =
     (U ''http://example.com:abc/'' = None \<and> U ''http://example.com:abc'' = None) \<and>
   (fst (createRequest V U C req_bad_port opts w) = Inl (TypeError ''Invalid URL'')) =
     (U ''http://example.com:abc/'' = None \<and> U ''http://example.com:abc'' = None) \<and>
   isl (fst (createRequest V U C req_bad_port opts w)) =
     (case U ''http://example.com:abc/'' of
        Some u \<Rightarrow> C u
      | None \<Rightarrow> (case U ''http://example.com:abc'' of Some u \<Rightarrow> C u | None \<Rightarrow> True))"
proof -
  have p: "primaryURLString V req_bad_port opts = ''http://example.com:abc/''"
    by (simp add: url_defs ex_defs)
  have f: "fallbackURLString req_bad_port = ''http://example.com:abc''"
    by (simp add: url_defs ex_defs)
  have hs: "makeRequestHeaders req_bad_port =
      Inr [(''host'', ''example.com''), (''x-forwarded-port'', ''abc'')]"
    by code_simp
  have m: "method_or_GET req_bad_port = ''GET''"
    by (simp add: method_or_GET_def ex_defs)
  have init: "requestInit req_bad_port opts k =
      Inr \<lparr>init_method = ''GET'',
           init_headers = [(''host'', ''example.com''), (''x-forwarded-port'', ''abc'')],
           init_signal = k, init_body = None, init_duplex = None\<rparr>" for k
    by (simp add: requestInit_def hs m bodyAllowed_def)
  have new: "newRequest C u
      \<lparr>init_method = ''GET'',
       init_headers = [(''host'', ''example.com''), (''x-forwarded-port'', ''abc'')],
       init_signal = k, init_body = None, init_duplex = None\<rparr> =
      (if C u then Inl (TypeError ''Request cannot be constructed from a URL that includes credentials'')
       else Inr \<lparr>url = u, request_method = ''GET'',
                 request_headers = [(''host'', ''example.com''), (''x-forwarded-port'', ''abc'')],
                 body = None, signal = k, clientAddress = None\<rparr>)" for u k
    by (simp add: newRequest_no_body normalizeMethod_GET)
  have u: "requestURL V U req_bad_port opts =
      (case U ''http://example.com:abc/'' of
         Some u \<Rightarrow> Inr u
       | None \<Rightarrow> (case U ''http://example.com:abc'' of
                    Some u \<Rightarrow> Inr u
                  | None \<Rightarrow> Inl (TypeError ''Invalid URL'')))"
    by (simp add: requestURL_def p f cong: option.case_cong)
  have c3: "isl (requestURL V U req_bad_port opts) =
      (U ''http://example.com:abc/'' = None \<and> U ''http://example.com:abc'' = None)"
    by (simp add: requestURL_isl p f)
  have c4: "(fst (createRequest V U C req_bad_port opts w) = Inl (TypeError ''Invalid URL'')) =
      (U ''http://example.com:abc/'' = None \<and> U ''http://example.com:abc'' = None)"
    by (simp add: createRequest_fst u init new split: option.splits)
  have c5: "isl (fst (createRequest V U C req_bad_port opts w)) =
     (case U ''http://example.com:abc/'' of
        Some u \<Rightarrow> C u
      | None \<Rightarrow> (case U ''http://example.com:abc'' of Some u \<Rightarrow> C u | None \<Rightarrow> True))"
    by (simp add: createRequest_fst u init new split: option.splits)
  from p f c3 c4 c5 show ?thesis
    by (intro conjI)
qed

text \<open>A forwarded host that is not empty and fails the trust policy is discarded: the host
  of the URL is the one the connection provided.\<close>

lemma rejected_forwarded_host_is_discarded:
  assumes "getFirstForwardedValue (header req ''x-forwarded-host'') = Some fh"
    and "fh \<noteq> []"
    and "\<not> V fh (allowedDomains opts) (protocol req)"
  shows "hostname V req opts = providedHostname req"
  using assms by (simp add: hostname_def forwardedHostname_def protocol_def)

lemma rejected_forwarded_host_example:
  "getFirstForwardedValue (header req_forwarded_host ''x-forwarded-host'') = Some ''evil.test'' \<and>
   hostname reject_all req_forwarded_host ex_opts = Some (HString ''example.com'')"
proof -
  have f: "getFirstForwardedValue (header req_forwarded_host ''x-forwarded-host'') = Some ''evil.test''"
    by (simp add: url_defs ex_defs)
  have p: "providedHostname req_forwarded_host = Some (HString ''example.com'')"
    by (simp add: url_defs ex_defs)
  have r: "\<not> reject_all ''evil.test'' (allowedDomains ex_opts) (protocol req_forwarded_host)"
    by (simp add: reject_all_def)
  have n: "''evil.test'' \<noteq> []"
    by simp
  from rejected_forwarded_host_is_discarded [of req_forwarded_host "''evil.test''" reject_all ex_opts,
      OF f n r] f p
  show ?thesis
    by simp
qed

text \<open>
  Claim C3 says that a forwarded host which does not pass the trust policy never becomes
  the host of the URL. An empty first value of \<^verbatim>\<open>X-Forwarded-Host\<close> is not shown to the
  policy at all and still replaces the host: for \<^verbatim>\<open>GET /admin/users\<close> with
  \<^verbatim>\<open>Host: example.com\<close> and an empty \<^verbatim>\<open>X-Forwarded-Host\<close> the host name is the empty
  string, whatever the policy is, and the string handed to the \<^verbatim>\<open>URL\<close> constructor is
  \<^verbatim>\<open>http:///admin/users\<close>; the connection's host is used only if that string is rejected.
\<close>

theorem C3_empty_forwarded_host_is_used:
  "getFirstForwardedValue (header req_empty_forwarded_host ''x-forwarded-host'') = Some [] \<and>
   providedHostname req_empty_forwarded_host = Some (HString ''example.com'') \<and>
   hostname V req_empty_forwarded_host opts = Some (HString []) \<and>
   primaryURLString V req_empty_forwarded_host opts = ''http:///admin/users'' \<and>
   requestURL V U req_empty_forwarded_host opts =
     (case U ''http:///admin/users'' of
        Some u \<Rightarrow> Inr u
      | None \<Rightarrow> (case U ''http://example.com'' of
                   Some u \<Rightarrow> Inr u
                 | None \<Rightarrow> Inl (TypeError ''Invalid URL'')))"
proof -
  have p: "primaryURLString V req_empty_forwarded_host opts = ''http:///admin/users''"
    by (simp add: url_defs ex_defs)
  have f: "fallbackURLString req_empty_forwarded_host = ''http://example.com''"
    by (simp add: url_defs ex_defs)
  have h: "hostname V req_empty_forwarded_host opts = Some (HString [])"
    "providedHostname req_empty_forwarded_host = Some (HString ''example.com'')"
    "getFirstForwardedValue (header req_empty_forwarded_host ''x-forwarded-host'') = Some []"
    by (simp_all add: url_defs ex_defs)
  show ?thesis
    by (simp add: requestURL_def p f h cong: option.case_cong)
qed


text \<open>What \<^verbatim>\<open>options\<close> holds, with and without a body.\<close>

lemma requestInit_no_body:
  assumes "\<not> bodyAllowed req opts"
  shows "requestInit req opts k =
     (case makeRequestHeaders req of
        Inl e \<Rightarrow> Inl e
      | Inr hs \<Rightarrow>
          Inr \<lparr>init_method = method_or_GET req, init_headers = hs, init_signal = k,
               init_body = None, init_duplex = None\<rparr>)"
  using assms by (simp add: requestInit_def Let_def cong: sum.case_cong)

lemma requestInit_body:
  assumes "bodyAllowed req opts" and "makeRequestBody req = Inr props"
  shows "requestInit req opts k =
     (case makeRequestHeaders req of
        Inl e \<Rightarrow> Inl e
      | Inr hs \<Rightarrow>
          Inr \<lparr>init_method = method_or_GET req, init_headers = hs, init_signal = k,
               init_body = bp_body props, init_duplex = bp_duplex props\<rparr>)"
  using assms by (simp add: requestInit_def Let_def cong: sum.case_cong)

lemma createRequest_no_body:
  assumes "\<not> bodyAllowed req opts" and "fst (createRequest V U C req opts w) = Inr r"
  shows "body r = None"
proof -
  from assms(2) obtain u options request
    where o: "requestInit req opts (nextController w) = Inr options"
      and n: "newRequest C u options = Inr request"
      and r: "r = request\<lparr>clientAddress := clientIp req\<rparr>"
    by (auto simp: createRequest_fst split: sum.splits)
  from o assms(1) have "init_body options = None" "init_duplex options = None"
    by (auto simp: requestInit_no_body split: sum.splits)
  with n have "body request = None"
    by (auto simp: newRequest_no_body split: if_splits sum.splits)
  with r show ?thesis
    by simp
qed

text \<open>A stream is accepted as a body only with a method other than \<^verbatim>\<open>GET\<close> and
  \<^verbatim>\<open>HEAD\<close>, and only when nothing has read from it.\<close>

lemma createRequest_transport_stream:
  assumes "bodyAllowed req opts"
    and "makeRequestBody req = Inr (asyncIterableToBodyProps (TransportStream s))"
    and "fst (createRequest V U C req opts w) = Inr r"
  shows "body r = Some (TransportStream False) \<and> \<not> s"
proof -
  from assms(3) obtain u options request
    where o: "requestInit req opts (nextController w) = Inr options"
      and n: "newRequest C u options = Inr request"
      and r: "r = request\<lparr>clientAddress := clientIp req\<rparr>"
    by (auto simp: createRequest_fst split: sum.splits)
  from o assms(1,2) have b: "init_body options = Some (TransportStream s)"
    by (auto simp: requestInit_body asyncIterableToBodyProps_def split: sum.splits)
  from n b have "body request = Some (TransportStream False) \<and> \<not> s"
    by (auto simp: newRequest_def split: if_splits sum.splits)
  with r show ?thesis
    by simp
qed

text \<open>
  Claim C8: when the method of the transport request is \<^verbatim>\<open>GET\<close> or \<^verbatim>\<open>HEAD\<close>, or when
  \<^verbatim>\<open>skipBody\<close> is set, the request that \<^verbatim>\<open>createRequest\<close> produces has no body, whatever
  the transport stream and the body override hold: a request that the call returns has
  no body, and the call does the same for every body override \<open>b\<close> and every state \<open>s\<close>
  of the transport stream.
\<close>

theorem C8_no_body:
  assumes "req_method req = Some ''GET'' \<or> req_method req = Some ''HEAD'' \<or> skipBody opts"
  shows "(\<forall>r. fst (createRequest V U C req opts w) = Inr r \<longrightarrow> body r = None) \<and>
         createRequest V U C (req\<lparr>req_body := b, req_disturbed := s\<rparr>) opts w =
           createRequest V U C req opts w"
proof -
  let ?req' = "req\<lparr>req_body := b, req_disturbed := s\<rparr>"
  from assms have n: "\<not> bodyAllowed req opts"
    by (auto simp: bodyAllowed_def method_or_GET_def)
  then have n': "\<not> bodyAllowed ?req' opts"
    by (simp add: bodyAllowed_def method_or_GET_def)
  have m: "method_or_GET ?req' = method_or_GET req"
    by (simp add: method_or_GET_def)
  have h: "makeRequestHeaders ?req' = makeRequestHeaders req"
    by (simp add: makeRequestHeaders_def)
  have init: "requestInit ?req' opts (nextController w) = requestInit req opts (nextController w)"
    by (simp only: requestInit_no_body [OF n] requestInit_no_body [OF n'] m h)
  have eq: "createRequest V U C ?req' opts w = createRequest V U C req opts w"
    by (rule createRequest_cong) (simp_all add: init)
  from createRequest_no_body [OF n] eq show ?thesis
    by blast
qed

theorem C8_no_body_witness:
  "req_method ((req_page ''/'')\<lparr>req_body := BodyString ''data''\<rparr>) = Some ''GET'' \<and>
   fst (createRequest reject_all accept_url no_credentials
          ((req_page ''/'')\<lparr>req_body := BodyString ''data''\<rparr>) ex_opts fresh_wiring) =
     Inr \<lparr>url = ''http://example.com/'', request_method = ''GET'',
          request_headers = [(''host'', ''example.com'')], body = None, signal = 0,
          clientAddress = Some ''10.0.0.1''\<rparr> \<and>
   body \<lparr>url = ''http://example.com/'', request_method = ''GET'',
         request_headers = [(''host'', ''example.com'')], body = None, signal = 0,
         clientAddress = Some ''10.0.0.1''\<rparr> = None"
proof -
  let ?req = "(req_page ''/'')\<lparr>req_body := BodyString ''data''\<rparr>"
  have h: "req_method ?req = Some ''GET''"
    by (simp add: ex_defs)
  then have h': "req_method ?req = Some ''GET'' \<or> req_method ?req = Some ''HEAD'' \<or> skipBody ex_opts"
    by simp
  have e: "fst (createRequest reject_all accept_url no_credentials ?req ex_opts fresh_wiring) =
     Inr \<lparr>url = ''http://example.com/'', request_method = ''GET'',
          request_headers = [(''host'', ''example.com'')], body = None, signal = 0,
          clientAddress = Some ''10.0.0.1''\<rparr>"
    by code_simp
  from C8_no_body [OF h', of reject_all accept_url no_credentials fresh_wiring, THEN conjunct1] e
  have "body \<lparr>url = ''http://example.com/'', request_method = ''GET'',
         request_headers = [(''host'', ''example.com'')], body = None, signal = 0,
         clientAddress = Some ''10.0.0.1''\<rparr> = None"
    by blast
  with h e show ?thesis
    by (intro conjI)
qed

text \<open>
  Claim C9 says that for an empty body override \<^verbatim>\<open>createRequest\<close> attaches the transport
  request's own stream. For a \<^verbatim>\<open>GET\<close> request with the override \<^verbatim>\<open>''\<close> it attaches
  nothing: the guard \<^verbatim>\<open>bodyAllowed\<close> stands before \<^verbatim>\<open>makeRequestBody\<close>.
\<close>

theorem C9_counterexample:
  "fst (createRequest reject_all accept_url no_credentials
          ((req_page ''/'')\<lparr>req_body := BodyString []\<rparr>) ex_opts fresh_wiring) =
     Inr \<lparr>url = ''http://example.com/'', request_method = ''GET'',
          request_headers = [(''host'', ''example.com'')], body = None, signal = 0,
          clientAddress = Some ''10.0.0.1''\<rparr>"
  by code_simp

text \<open>
  Claim C9, amended: a body override that is the empty string, or an object without own
  keys and without an async iterator, is ignored. \<^verbatim>\<open>makeRequestBody\<close> returns the
  transport request's own stream with the \<^verbatim>\<open>half\<close> duplex marker, and \<^verbatim>\<open>createRequest\<close>
  does exactly what it does without an override. Where a body is attached at all (the
  method is neither \<^verbatim>\<open>GET\<close> nor \<^verbatim>\<open>HEAD\<close> and \<^verbatim>\<open>skipBody\<close> is false), the \<^verbatim>\<open>RequestInit\<close>
  holds that stream and the marker, and a request that the call returns has that stream,
  not read from before, as its body; otherwise the request has no body.
\<close>

theorem C9_empty_override_ignored:
  assumes "req_body req = BodyString [] \<or> req_body req = BodyObject [] None json"
  shows "makeRequestBody req =
           Inr \<lparr>bp_body = Some (TransportStream (req_disturbed req)), bp_duplex = Some ''half''\<rparr> \<and>
         createRequest V U C req opts w =
           createRequest V U C (req\<lparr>req_body := BodyUndefined\<rparr>) opts w \<and>
         (bodyAllowed req opts \<longrightarrow>
            (\<forall>options. requestInit req opts k = Inr options \<longrightarrow>
               init_body options = Some (TransportStream (req_disturbed req)) \<and>
               init_duplex options = Some ''half'') \<and>
            (\<forall>r. fst (createRequest V U C req opts w) = Inr r \<longrightarrow>
               body r = Some (TransportStream False) \<and> \<not> req_disturbed req)) \<and>
         (\<not> bodyAllowed req opts \<longrightarrow>
            (\<forall>r. fst (createRequest V U C req opts w) = Inr r \<longrightarrow> body r = None))"
proof -
  let ?req' = "req\<lparr>req_body := BodyUndefined\<rparr>"
  from assms
  have mk: "makeRequestBody req = Inr (asyncIterableToBodyProps (TransportStream (req_disturbed req)))"
    by (auto simp: makeRequestBody_def)
  have mk': "makeRequestBody ?req' = makeRequestBody req"
    by (simp add: mk) (simp add: makeRequestBody_def)
  have c1: "makeRequestBody req =
      Inr \<lparr>bp_body = Some (TransportStream (req_disturbed req)), bp_duplex = Some ''half''\<rparr>"
    by (simp add: mk asyncIterableToBodyProps_def)
  have same: "method_or_GET ?req' = method_or_GET req" "bodyAllowed ?req' opts = bodyAllowed req opts"
    "makeRequestHeaders ?req' = makeRequestHeaders req"
    by (simp_all add: bodyAllowed_def method_or_GET_def makeRequestHeaders_def)
  have init: "requestInit ?req' opts (nextController w) = requestInit req opts (nextController w)"
    by (simp only: requestInit_def same mk')
  have c2: "createRequest V U C req opts w = createRequest V U C ?req' opts w"
    by (rule createRequest_cong [symmetric]) (simp_all add: init)
  have c3: "init_body options = Some (TransportStream (req_disturbed req)) \<and>
      init_duplex options = Some ''half''"
    if "bodyAllowed req opts" and "requestInit req opts k = Inr options" for options
    using that by (auto simp: requestInit_body [OF _ c1] split: sum.splits)
  have c4: "body r = Some (TransportStream False) \<and> \<not> req_disturbed req"
    if "bodyAllowed req opts" and "fst (createRequest V U C req opts w) = Inr r" for r
    using createRequest_transport_stream [OF that(1) mk that(2)] .
  have c5: "body r = None"
    if "\<not> bodyAllowed req opts" and "fst (createRequest V U C req opts w) = Inr r" for r
    using createRequest_no_body [OF that] .
  from c1 c2 c3 c4 c5 show ?thesis
    by blast
qed

theorem C9_empty_override_ignored_witness:
  "req_body (req_post\<lparr>req_body := BodyString []\<rparr>) = BodyString [] \<and>
   bodyAllowed (req_post\<lparr>req_body := BodyString []\<rparr>) ex_opts \<and>
   requestInit (req_post\<lparr>req_body := BodyString []\<rparr>) ex_opts 0 =
     Inr \<lparr>init_method = ''POST'', init_headers = [(''host'', ''example.com'')], init_signal = 0,
          init_body = Some (TransportStream False), init_duplex = Some ''half''\<rparr> \<and>
   fst (createRequest reject_all accept_url no_credentials (req_post\<lparr>req_body := BodyString []\<rparr>)
          ex_opts fresh_wiring) =
     Inr \<lparr>url = ''http://example.com/api'', request_method = ''POST'',
          request_headers = [(''host'', ''example.com'')], body = Some (TransportStream False),
          signal = 0, clientAddress = Some ''10.0.0.1''\<rparr> \<and>
   createRequest reject_all accept_url no_credentials (req_post\<lparr>req_body := BodyString []\<rparr>)
     ex_opts fresh_wiring =
   createRequest reject_all accept_url no_credentials req_post ex_opts fresh_wiring"
proof -
  let ?req = "req_post\<lparr>req_body := BodyString []\<rparr>"
  have h: "req_body ?req = BodyString [] \<or> req_body ?req = BodyObject [] None (Inr [])"
    by simp
  have a: "bodyAllowed ?req ex_opts"
    by code_simp
  have i: "requestInit ?req ex_opts 0 =
     Inr \<lparr>init_method = ''POST'', init_headers = [(''host'', ''example.com'')], init_signal = 0,
          init_body = Some (TransportStream False), init_duplex = Some ''half''\<rparr>"
    by code_simp
  have e: "fst (createRequest reject_all accept_url no_credentials ?req ex_opts fresh_wiring) =
     Inr \<lparr>url = ''http://example.com/api'', request_method = ''POST'',
          request_headers = [(''host'', ''example.com'')], body = Some (TransportStream False),
          signal = 0, clientAddress = Some ''10.0.0.1''\<rparr>"
    by code_simp
  have u: "?req\<lparr>req_body := BodyUndefined\<rparr> = req_post"
    by (simp add: ex_defs)
  from C9_empty_override_ignored [OF h, of reject_all accept_url no_credentials ex_opts fresh_wiring,
      THEN conjunct2, THEN conjunct1] u
  have c: "createRequest reject_all accept_url no_credentials ?req ex_opts fresh_wiring =
      createRequest reject_all accept_url no_credentials req_post ex_opts fresh_wiring"
    by simp
  from h a i e c show ?thesis
    by (intro conjI) simp_all
qed

text \<open>
  Claim C10: when the method of the transport request is absent or empty, the request that
  \<^verbatim>\<open>createRequest\<close> produces has the method \<^verbatim>\<open>GET\<close>. The call does exactly what it does
  for the same transport request with the method \<^verbatim>\<open>GET\<close>, so the missing method is no
  cause of failure of its own; the \<^verbatim>\<open>Request\<close> constructor accepts the default; and a
  request that the call returns has the method \<^verbatim>\<open>GET\<close>.
\<close>

theorem C10_default_method:
  assumes "req_method req = None \<or> req_method req = Some []"
  shows "createRequest V U C req opts w =
           createRequest V U C (req\<lparr>req_method := Some ''GET''\<rparr>) opts w \<and>
         normalizeMethod (method_or_GET req) = Inr ''GET'' \<and>
         (\<forall>r. fst (createRequest V U C req opts w) = Inr r \<longrightarrow> request_method r = ''GET'')"
proof -
  let ?req' = "req\<lparr>req_method := Some ''GET''\<rparr>"
  from assms have m: "method_or_GET req = ''GET''"
    by (auto simp: method_or_GET_def)
  have m': "method_or_GET ?req' = ''GET''"
    by (simp add: method_or_GET_def)
  have b: "bodyAllowed ?req' opts = bodyAllowed req opts"
    by (simp add: bodyAllowed_def m m')
  have same: "makeRequestHeaders ?req' = makeRequestHeaders req"
    "makeRequestBody ?req' = makeRequestBody req"
    by (simp_all add: makeRequestHeaders_def makeRequestBody_def
          cong: body_override.case_cong option.case_cong if_cong)
  have init: "requestInit ?req' opts (nextController w) = requestInit req opts (nextController w)"
    by (simp only: requestInit_def same m m' b)
  have c1: "createRequest V U C req opts w = createRequest V U C ?req' opts w"
    by (rule createRequest_cong [symmetric]) (simp_all add: init)
  have c2: "normalizeMethod (method_or_GET req) = Inr ''GET''"
    by (simp add: m normalizeMethod_GET)
  have c3: "request_method r = ''GET''" if "fst (createRequest V U C req opts w) = Inr r" for r
  proof -
    from that obtain u options request
      where o: "requestInit req opts (nextController w) = Inr options"
        and n: "newRequest C u options = Inr request"
        and r: "r = request\<lparr>clientAddress := clientIp req\<rparr>"
      by (auto simp: createRequest_fst split: sum.splits)
    from o have "init_method options = ''GET''"
      by (auto simp: requestInit_def Let_def m split: sum.splits if_splits)
    with n have "request_method request = ''GET''"
      by (auto simp: newRequest_def normalizeMethod_GET split: if_splits option.splits sum.splits)
    with r show ?thesis
      by simp
  qed
  from c1 c2 c3 show ?thesis
    by blast
qed

theorem C10_default_method_witness:
  "req_method (ex_request None ''/'' [(''host'', HString ''example.com'')]) = None \<and>
   fst (createRequest reject_all accept_url no_credentials
          (ex_request None ''/'' [(''host'', HString ''example.com'')]) ex_opts fresh_wiring) =
     Inr \<lparr>url = ''http://example.com/'', request_method = ''GET'',
          request_headers = [(''host'', ''example.com'')], body = None, signal = 0,
          clientAddress = Some ''10.0.0.1''\<rparr> \<and>
   request_method \<lparr>url = ''http://example.com/'', request_method = ''GET'',
          request_headers = [(''host'', ''example.com'')], body = None, signal = 0,
          clientAddress = Some ''10.0.0.1''\<rparr> = ''GET''"
proof -
  let ?req = "ex_request None ''/'' [(''host'', HString ''example.com'')]"
  have h: "req_method ?req = None"
    by (simp add: ex_defs)
  then have h': "req_method ?req = None \<or> req_method ?req = Some []"
    by simp
  have e: "fst (createRequest reject_all accept_url no_credentials ?req ex_opts fresh_wiring) =
     Inr \<lparr>url = ''http://example.com/'', request_method = ''GET'',
          request_headers = [(''host'', ''example.com'')], body = None, signal = 0,
          clientAddress = Some ''10.0.0.1''\<rparr>"
    by code_simp
  from C10_default_method [OF h', of reject_all accept_url no_credentials ex_opts fresh_wiring,
      THEN conjunct2, THEN conjunct2] e
  have "request_method \<lparr>url = ''http://example.com/'', request_method = ''GET'',
          request_headers = [(''host'', ''example.com'')], body = None, signal = 0,
          clientAddress = Some ''10.0.0.1''\<rparr> = ''GET''"
    by blast
  with h e show ?thesis
    by (intro conjI)
qed


section \<open>Facts about the cancellation wiring\<close>

lemma removeSocketListener_fields [simp]:
  "cleanedUp (removeSocketListener sock k w) = cleanedUp w"
  "aborted (removeSocketListener sock k w) = aborted w"
  "cleanupRuns (removeSocketListener sock k w) = cleanupRuns w"
  "abortEvents (removeSocketListener sock k w) = abortEvents w"
  "abortListeners (removeSocketListener sock k w) = abortListeners w"
  "cleanupSlot (removeSocketListener sock k w) = cleanupSlot w"
  "wired (removeSocketListener sock k w) = wired w"
  "nextController (removeSocketListener sock k w) = nextController w"
  "socketDestroyed (removeSocketListener sock k w) = socketDestroyed w"
  by (simp_all add: removeSocketListener_def)

lemma counts_ok_cleanup: "counts_ok w \<Longrightarrow> counts_ok (cleanup sock k w)"
  by (simp add: counts_ok_def cleanup_def Let_def)

lemma counts_ok_abort: "counts_ok w \<Longrightarrow> counts_ok (abort sock k w)"
proof -
  assume ok: "counts_ok w"
  show ?thesis
  proof (cases "k \<in> aborted w")
    case True
    then show ?thesis using ok by (simp add: abort_def)
  next
    case False
    let ?w1 = "w\<lparr>aborted := insert k (aborted w),
                  abortEvents := (abortEvents w)(k := Suc (abortEvents w k))\<rparr>"
    have ok1: "counts_ok ?w1" using ok False by (simp add: counts_ok_def)
    have ok2: "counts_ok (?w1\<lparr>abortListeners := abortListeners ?w1 - {k}\<rparr>)"
      using ok1 by (simp add: counts_ok_def)
    show ?thesis
      using False ok1 counts_ok_cleanup [OF ok2, of sock k]
      by (simp add: abort_def Let_def)
  qed
qed

lemma counts_ok_onSocketClose: "counts_ok w \<Longrightarrow> counts_ok (onSocketClose sock k w)"
  by (simp add: onSocketClose_def Let_def counts_ok_cleanup counts_ok_abort)

lemma counts_ok_fold_close:
  "counts_ok w \<Longrightarrow> counts_ok (fold (onSocketClose sock) ks w)"
  by (induction ks arbitrary: w) (simp_all add: counts_ok_onSocketClose)

lemma counts_ok_frame:
  "counts_ok v \<Longrightarrow>
   counts_ok (v\<lparr>wired := wd, closeListeners := ls, abortListeners := al, cleanupSlot := sl\<rparr>)"
  by (simp add: counts_ok_def)

lemma counts_ok_wireAbort: "counts_ok w \<Longrightarrow> counts_ok (wireAbort req k w)"
proof -
  assume ok: "counts_ok w"
  show ?thesis
  proof (cases "getRequestSocket req")
    case None
    then show ?thesis using ok by (simp add: wireAbort_def)
  next
    case (Some sock)
    define w1 where "w1 = (case getAbortControllerCleanup w of
                        Some existingCleanup \<Rightarrow> cleanup sock existingCleanup w
                      | None \<Rightarrow> w)"
    have ok1: "counts_ok w1"
      using ok by (simp add: w1_def counts_ok_cleanup split: option.splits)
    define w5 where "w5 = w1\<lparr>wired := insert k (wired w1), closeListeners := closeListeners w1 @ [k],
        abortListeners := insert k (abortListeners w1), cleanupSlot := Some k\<rparr>"
    have ok5: "counts_ok w5"
      unfolding w5_def by (rule counts_ok_frame [OF ok1])
    have "wireAbort req k w = (if has_on sock then (if socketDestroyed w5 then onSocketClose sock k w5 else w5) else w)"
      by (simp add: wireAbort_def Some Let_def w1_def w5_def)
    then show ?thesis
      using ok ok5 by (simp add: counts_ok_onSocketClose)
  qed
qed

lemma counts_ok_createRequest: "counts_ok w \<Longrightarrow> counts_ok (snd (createRequest V U C req opts w))"
proof -
  assume ok: "counts_ok w"
  have ok0: "counts_ok (w\<lparr>nextController := Suc (nextController w)\<rparr>)"
    using ok by (simp add: counts_ok_def)
  show ?thesis
    using ok0 by (simp add: createRequest_snd counts_ok_wireAbort)
qed

lemma counts_ok_step: "counts_ok w \<Longrightarrow> counts_ok (step V U C req opts ev w)"
  by (cases ev)
     (simp_all add: step_def emitClose_def counts_ok_createRequest counts_ok_fold_close
        counts_ok_cleanup counts_ok_def[of "_\<lparr>socketDestroyed := _\<rparr>"] split: option.splits,
      simp add: counts_ok_def)

lemma counts_ok_run: "counts_ok w \<Longrightarrow> counts_ok (run V U C req opts evs w)"
  unfolding run_def by (induction evs arbitrary: w) (simp_all add: counts_ok_step)

lemma counts_ok_fresh: "counts_ok fresh_wiring"
  by (simp add: counts_ok_def fresh_wiring_def)


lemma inv_slot_not_cleaned:
  "wiring_inv w \<Longrightarrow> k \<in> cleanedUp w \<Longrightarrow> cleanupSlot w \<noteq> Some k"
  by (auto simp: wiring_inv_def)

lemma cleanup_noop: "k \<in> cleanedUp w \<Longrightarrow> cleanup sock k w = w"
  by (simp add: cleanup_def)

lemma abort_noop: "k \<in> aborted w \<Longrightarrow> abort sock k w = w"
  by (simp add: abort_def)

lemma inv_cleanup:
  assumes "wiring_inv w" "removable sock" "k \<in> wired w"
  shows "wiring_inv (cleanup sock k w) \<and> k \<in> cleanedUp (cleanup sock k w) \<and>
         wired (cleanup sock k w) = wired w \<and> nextController (cleanup sock k w) = nextController w \<and>
         socketDestroyed (cleanup sock k w) = socketDestroyed w \<and>
         cleanupSlot (cleanup sock k w) \<noteq> Some k \<and>
         (cleanupSlot w = Some k \<longrightarrow> cleanupSlot (cleanup sock k w) = None)"
proof (cases "k \<in> cleanedUp w")
  case True
  with assms show ?thesis by (auto simp: cleanup_noop wiring_inv_def)
next
  case False
  with assms have "k \<in> wired w - cleanedUp w" by simp
  also from assms have "wired w - cleanedUp w = set_option (cleanupSlot w)"
    by (simp add: wiring_inv_def)
  finally have slot: "cleanupSlot w = Some k"
    by (cases "cleanupSlot w") simp_all
  with assms have ls: "closeListeners w = [k]" and al: "abortListeners w = {k}"
    and wc: "wired w - cleanedUp w = {k}"
    by (simp_all add: wiring_inv_def)
  from assms(2) have rm: "closeListeners (removeSocketListener sock k v) = off k (closeListeners v)" for v
    by (auto simp: removable_def removeSocketListener_def)
  show ?thesis
    using False assms(1) slot ls al wc
    by (auto simp: cleanup_def Let_def rm off_def wiring_inv_def)
qed

lemma inv_abort:
  assumes "wiring_inv w" "k \<in> cleanedUp w"
  shows "wiring_inv (abort sock k w) \<and> wired (abort sock k w) = wired w \<and>
         k \<in> aborted (abort sock k w) \<and> cleanupSlot (abort sock k w) = cleanupSlot w \<and>
         nextController (abort sock k w) = nextController w \<and>
         socketDestroyed (abort sock k w) = socketDestroyed w"
proof -
  from assms have "k \<notin> abortListeners w"
    by (cases "cleanupSlot w") (auto simp: wiring_inv_def)
  with assms show ?thesis
    by (auto simp: abort_def Let_def wiring_inv_def)
qed

lemma inv_onSocketClose:
  assumes "wiring_inv w" "removable sock" "k \<in> wired w"
  shows "wiring_inv (onSocketClose sock k w) \<and> wired (onSocketClose sock k w) = wired w \<and>
         nextController (onSocketClose sock k w) = nextController w \<and>
         socketDestroyed (onSocketClose sock k w) = socketDestroyed w \<and>
         k \<in> aborted (onSocketClose sock k w) \<and>
         (cleanupSlot w = Some k \<longrightarrow> cleanupSlot (onSocketClose sock k w) = None)"
proof -
  let ?w1 = "cleanup sock k w"
  from inv_cleanup [OF assms] have c: "wiring_inv ?w1" "k \<in> cleanedUp ?w1" "wired ?w1 = wired w"
    "cleanupSlot w = Some k \<longrightarrow> cleanupSlot ?w1 = None" "nextController ?w1 = nextController w"
    "socketDestroyed ?w1 = socketDestroyed w"
    by simp_all
  from inv_abort [OF c(1) c(2), of sock] have a: "wiring_inv (abort sock k ?w1)"
    "wired (abort sock k ?w1) = wired ?w1" "cleanupSlot (abort sock k ?w1) = cleanupSlot ?w1"
    "k \<in> aborted (abort sock k ?w1)" "nextController (abort sock k ?w1) = nextController ?w1"
    "socketDestroyed (abort sock k ?w1) = socketDestroyed ?w1"
    by simp_all
  show ?thesis
    using c a by (simp add: onSocketClose_def Let_def)
qed

lemma inv_fold_close:
  assumes "removable sock"
  shows "wiring_inv w \<Longrightarrow> set ks \<subseteq> wired w \<Longrightarrow>
     wiring_inv (fold (onSocketClose sock) ks w) \<and> wired (fold (onSocketClose sock) ks w) = wired w"
proof (induction ks arbitrary: w)
  case Nil
  then show ?case by simp
next
  case (Cons k ks)
  from Cons.prems have k: "k \<in> wired w" by simp
  from inv_onSocketClose [OF Cons.prems(1) assms k]
  have "wiring_inv (onSocketClose sock k w)" "wired (onSocketClose sock k w) = wired w" by simp_all
  with Cons.IH [of "onSocketClose sock k w"] Cons.prems show ?case by simp
qed

lemma inv_listeners_wired: "wiring_inv w \<Longrightarrow> set (closeListeners w) \<subseteq> wired w"
  by (cases "cleanupSlot w") (auto simp: wiring_inv_def)

lemma inv_wireAbort:
  assumes inv: "wiring_inv w" and sock: "getRequestSocket req = Some sock" and rm: "removable sock"
    and k: "nextController w = Suc k" "wired w \<subseteq> {..<k}"
  shows "wiring_inv (wireAbort req k w)"
proof -
  define w1 where "w1 = (case getAbortControllerCleanup w of
                        Some existingCleanup \<Rightarrow> cleanup sock existingCleanup w
                      | None \<Rightarrow> w)"
  have w1: "wiring_inv w1 \<and> cleanupSlot w1 = None \<and> wired w1 = wired w \<and> nextController w1 = nextController w"
  proof (cases "cleanupSlot w")
    case None
    then show ?thesis using inv by (simp add: w1_def getAbortControllerCleanup_def)
  next
    case (Some j)
    with inv have "j \<in> wired w" by (auto simp: wiring_inv_def)
    from inv_cleanup [OF inv rm this] Some show ?thesis
      by (simp add: w1_def getAbortControllerCleanup_def)
  qed
  define w5 where "w5 = w1\<lparr>wired := insert k (wired w1), closeListeners := closeListeners w1 @ [k],
        abortListeners := insert k (abortListeners w1), cleanupSlot := Some k\<rparr>"
  have inv5: "wiring_inv w5"
    using w1 k by (auto simp: w5_def wiring_inv_def)
  have k5: "k \<in> wired w5" by (simp add: w5_def)
  have eq: "wireAbort req k w = (if has_on sock then (if socketDestroyed w5 then onSocketClose sock k w5 else w5) else w)"
    by (simp add: wireAbort_def sock Let_def w1_def w5_def)
  have "wiring_inv w" using inv .
  then show ?thesis
    using inv5 inv_onSocketClose [OF inv5 rm k5] by (simp add: eq)
qed

lemma inv_createRequest:
  assumes inv: "wiring_inv w" and sock: "getRequestSocket req = Some sock" and rm: "removable sock"
  shows "wiring_inv (snd (createRequest V U C req opts w))"
proof -
  let ?w0 = "w\<lparr>nextController := Suc (nextController w)\<rparr>"
  have inv0: "wiring_inv ?w0" using inv by (auto simp: wiring_inv_def)
  have "wired ?w0 \<subseteq> {..<nextController w}" using inv by (simp add: wiring_inv_def)
  from inv_wireAbort [OF inv0 sock rm _ this] have "wiring_inv (wireAbort req (nextController w) ?w0)"
    by simp
  with inv0 show ?thesis
    by (simp add: createRequest_snd)
qed

lemma inv_step:
  assumes inv: "wiring_inv w" and sock: "getRequestSocket req = Some sock" and rm: "removable sock"
  shows "wiring_inv (step V U C req opts ev w)"
proof (cases ev)
  case Adapt
  then show ?thesis using inv_createRequest [OF assms] by (simp add: step_def)
next
  case SocketClose
  then show ?thesis
    using inv_fold_close [OF rm inv inv_listeners_wired [OF inv]]
    by (simp add: step_def sock emitClose_def)
next
  case SocketDestroy
  then show ?thesis using inv by (simp add: step_def wiring_inv_def)
next
  case (RunCleanup k)
  then show ?thesis using inv inv_cleanup [OF inv rm, of k]
    by (simp add: step_def sock)
qed

lemma inv_run:
  assumes sock: "getRequestSocket req = Some sock" and rm: "removable sock"
  shows "wiring_inv w \<Longrightarrow> wiring_inv (run V U C req opts evs w)"
  unfolding run_def
  by (induction evs arbitrary: w) (simp_all add: inv_step [OF _ sock rm])

lemma inv_fresh: "wiring_inv fresh_wiring"
  by (simp add: wiring_inv_def fresh_wiring_def)


lemma getRequestSocket_has_on: "getRequestSocket req = Some sock \<Longrightarrow> has_on sock"
  by (auto simp: getRequestSocket_def split: if_splits option.splits)

lemma inv_slot_facts:
  assumes "wiring_inv w" "cleanupSlot w = Some k"
  shows "closeListeners w = [k]" "abortListeners w = {k}" "k \<notin> cleanedUp w" "k \<in> wired w"
    "k < nextController w" "k \<notin> aborted w" "nextController w \<notin> cleanedUp w"
    "nextController w \<notin> aborted w"
  using assms by (auto simp: wiring_inv_def)

lemma readapt:
  assumes inv: "wiring_inv w" and cnt: "counts_ok w"
    and sock: "getRequestSocket req = Some sock" and rm: "removable sock"
    and slot: "cleanupSlot w = Some k" and ok: "\<not> isl (fst (createRequest V U C req opts w))"
  shows "cleanupRuns w k = 0 \<and>
         cleanupRuns (step V U C req opts Adapt w) k = 1 \<and>
         k \<notin> set (closeListeners (step V U C req opts Adapt w)) \<and>
         (if socketDestroyed w
          then cleanupSlot (step V U C req opts Adapt w) = None \<and>
               closeListeners (step V U C req opts Adapt w) = []
          else cleanupSlot (step V U C req opts Adapt w) = Some (nextController w) \<and>
               closeListeners (step V U C req opts Adapt w) = [nextController w])"
proof -
  note f = inv_slot_facts [OF inv slot]
  from rm have rmd: "closeListeners (removeSocketListener sock j v) = off j (closeListeners v)" for j v
    by (auto simp: removable_def removeSocketListener_def)
  have c0: "cleanupRuns w k = 0" using cnt f(3) by (simp add: counts_ok_def)
  have kn: "k \<noteq> nextController w" using f(5) by simp
  show ?thesis
    using f c0 kn getRequestSocket_has_on [OF sock]
    by (simp add: step_def createRequest_snd ok Let_def wireAbort_def sock
          getAbortControllerCleanup_def slot cleanup_def rmd off_def onSocketClose_def abort_def)
qed

lemma close_once:
  assumes inv: "wiring_inv w" and cnt: "counts_ok w"
    and sock: "getRequestSocket req = Some sock" and rm: "removable sock"
    and slot: "cleanupSlot w = Some k"
  shows "cleanupRuns (step V U C req opts SocketClose w) k = 1 \<and>
         abortEvents (step V U C req opts SocketClose w) k = 1 \<and>
         closeListeners (step V U C req opts SocketClose w) = [] \<and>
         step V U C req opts SocketClose (step V U C req opts SocketClose w) =
           step V U C req opts SocketClose w"
proof -
  note f = inv_slot_facts [OF inv slot]
  from rm have rmd: "closeListeners (removeSocketListener sock j v) = off j (closeListeners v)" for j v
    by (auto simp: removable_def removeSocketListener_def)
  have c0: "cleanupRuns w k = 0" "abortEvents w k = 0" using cnt f by (simp_all add: counts_ok_def)
  have l: "closeListeners (step V U C req opts SocketClose w) = []"
    using f by (simp add: step_def sock emitClose_def onSocketClose_def cleanup_def Let_def rmd off_def abort_def)
  show ?thesis
    using f c0 l
    by (simp add: step_def sock emitClose_def onSocketClose_def cleanup_def Let_def rmd off_def abort_def)
qed

text \<open>A call of \<^verbatim>\<open>createRequest\<close> that throws has not touched the listeners.\<close>

lemma adapt_throws:
  assumes "isl (fst (createRequest V U C req opts w))"
  shows "step V U C req opts Adapt w = w\<lparr>nextController := Suc (nextController w)\<rparr>"
  using assms by (simp add: step_def createRequest_snd)

text \<open>
  Claim C4, for the state \<open>w\<close> that any history of adaptations, close events, destroyed
  sockets and calls of old cleanup closures leaves behind. No cleanup body and no abort
  event has run more than once, and a cleanup or an abort that has run is a no-op when
  asked again. When the request has a socket that can remove listeners (as every
  \<^verbatim>\<open>net.Socket\<close> can), at most one close listener is registered and a close handler whose
  signal is aborted is a no-op; and if a cleanup \<open>k\<close> is attached to the request, it has
  not run yet, a close event runs it and aborts its signal exactly once and leaves no
  listener, a second close event changes nothing, and adapting the request again (a call
  of \<^verbatim>\<open>createRequest\<close> that returns) runs that cleanup, removes its listener and attaches
  the cleanup of the new controller in its place (or nothing, when the socket is already
  destroyed and the new signal fires at once). A call of \<^verbatim>\<open>createRequest\<close> that throws
  leaves the listeners and the attached cleanup as they are.
\<close>

theorem C4_cancellation_once:
  "let w = run V U C req opts evs fresh_wiring in
     (\<forall>k. cleanupRuns w k \<le> 1 \<and> abortEvents w k \<le> 1) \<and>
     (\<forall>k. k \<in> cleanedUp w \<longrightarrow> cleanup sock k w = w) \<and>
     (\<forall>k. k \<in> aborted w \<longrightarrow> abort sock k w = w) \<and>
     (isl (fst (createRequest V U C req opts w)) \<longrightarrow>
        step V U C req opts Adapt w = w\<lparr>nextController := Suc (nextController w)\<rparr>) \<and>
     (getRequestSocket req = Some sock \<and> (has_off sock \<or> has_removeListener sock) \<longrightarrow>
        length (closeListeners w) \<le> 1 \<and>
        (\<forall>k. k \<in> aborted w \<longrightarrow> onSocketClose sock k w = w) \<and>
        (\<forall>k. cleanupSlot w = Some k \<longrightarrow>
           cleanupRuns w k = 0 \<and> abortEvents w k = 0 \<and>
           (let w1 = step V U C req opts SocketClose w
            in cleanupRuns w1 k = 1 \<and> abortEvents w1 k = 1 \<and> closeListeners w1 = [] \<and>
               step V U C req opts SocketClose w1 = w1) \<and>
           (\<not> isl (fst (createRequest V U C req opts w)) \<longrightarrow>
              (let w2 = step V U C req opts Adapt w
               in cleanupRuns w2 k = 1 \<and> k \<notin> set (closeListeners w2) \<and>
                  (if socketDestroyed w
                   then cleanupSlot w2 = None \<and> closeListeners w2 = []
                   else cleanupSlot w2 = Some (nextController w) \<and>
                        closeListeners w2 = [nextController w])))))"
proof -
  define w where "w = run V U C req opts evs fresh_wiring"
  have cnt: "counts_ok w"
    unfolding w_def by (rule counts_ok_run [OF counts_ok_fresh])
  have once: "\<forall>k. cleanupRuns w k \<le> 1 \<and> abortEvents w k \<le> 1"
    using cnt by (simp add: counts_ok_def)
  have noop: "\<forall>k. k \<in> cleanedUp w \<longrightarrow> cleanup sock k w = w"
    "\<forall>k. k \<in> aborted w \<longrightarrow> abort sock k w = w"
    by (simp_all add: cleanup_noop abort_noop)
  have wired: "length (closeListeners w) \<le> 1 \<and>
        (\<forall>k. k \<in> aborted w \<longrightarrow> onSocketClose sock k w = w) \<and>
        (\<forall>k. cleanupSlot w = Some k \<longrightarrow>
           cleanupRuns w k = 0 \<and> abortEvents w k = 0 \<and>
           (let w1 = step V U C req opts SocketClose w
            in cleanupRuns w1 k = 1 \<and> abortEvents w1 k = 1 \<and> closeListeners w1 = [] \<and>
               step V U C req opts SocketClose w1 = w1) \<and>
           (\<not> isl (fst (createRequest V U C req opts w)) \<longrightarrow>
              (let w2 = step V U C req opts Adapt w
               in cleanupRuns w2 k = 1 \<and> k \<notin> set (closeListeners w2) \<and>
                  (if socketDestroyed w
                   then cleanupSlot w2 = None \<and> closeListeners w2 = []
                   else cleanupSlot w2 = Some (nextController w) \<and>
                        closeListeners w2 = [nextController w]))))"
    if sock: "getRequestSocket req = Some sock" and rm: "has_off sock \<or> has_removeListener sock"
  proof -
    from rm have rm': "removable sock" by (simp add: removable_def)
    have inv: "wiring_inv w"
      unfolding w_def by (rule inv_run [OF sock rm' inv_fresh])
    have len: "length (closeListeners w) \<le> 1"
      using inv by (cases "cleanupSlot w") (simp_all add: wiring_inv_def)
    have closed: "onSocketClose sock k w = w" if "k \<in> aborted w" for k
    proof -
      from that inv have "k \<in> cleanedUp w" by (auto simp: wiring_inv_def)
      with that show ?thesis by (simp add: onSocketClose_def cleanup_noop)
    qed
    have slot: "cleanupRuns w k = 0 \<and> abortEvents w k = 0 \<and>
           (let w1 = step V U C req opts SocketClose w
            in cleanupRuns w1 k = 1 \<and> abortEvents w1 k = 1 \<and> closeListeners w1 = [] \<and>
               step V U C req opts SocketClose w1 = w1) \<and>
           (\<not> isl (fst (createRequest V U C req opts w)) \<longrightarrow>
              (let w2 = step V U C req opts Adapt w
               in cleanupRuns w2 k = 1 \<and> k \<notin> set (closeListeners w2) \<and>
                  (if socketDestroyed w
                   then cleanupSlot w2 = None \<and> closeListeners w2 = []
                   else cleanupSlot w2 = Some (nextController w) \<and>
                        closeListeners w2 = [nextController w])))"
      if s: "cleanupSlot w = Some k" for k
    proof -
      note f = inv_slot_facts [OF inv s]
      have z: "cleanupRuns w k = 0" "abortEvents w k = 0"
        using cnt f by (simp_all add: counts_ok_def)
      have c: "let w1 = step V U C req opts SocketClose w
            in cleanupRuns w1 k = 1 \<and> abortEvents w1 k = 1 \<and> closeListeners w1 = [] \<and>
               step V U C req opts SocketClose w1 = w1"
        using close_once [OF inv cnt sock rm' s, of V U C opts] by (simp add: Let_def)
      have a: "let w2 = step V U C req opts Adapt w
               in cleanupRuns w2 k = 1 \<and> k \<notin> set (closeListeners w2) \<and>
                  (if socketDestroyed w
                   then cleanupSlot w2 = None \<and> closeListeners w2 = []
                   else cleanupSlot w2 = Some (nextController w) \<and>
                        closeListeners w2 = [nextController w])"
        if "\<not> isl (fst (createRequest V U C req opts w))"
      proof -
        from readapt [OF inv cnt sock rm' s that] show ?thesis
          by (simp add: Let_def)
      qed
      from z c a show ?thesis by blast
    qed
    from len closed slot show ?thesis by blast
  qed
  have thr: "isl (fst (createRequest V U C req opts w)) \<longrightarrow>
        step V U C req opts Adapt w = w\<lparr>nextController := Suc (nextController w)\<rparr>"
    by (simp add: adapt_throws)
  from once noop thr wired show ?thesis
    unfolding w_def [symmetric] Let_def by blast
qed


theorem C4_cancellation_once_witness:
  "getRequestSocket (req_page ''/'') = Some ex_socket \<and> has_off ex_socket \<and>
   cleanupSlot (run reject_all accept_url no_credentials (req_page ''/'') ex_opts [Adapt] fresh_wiring) = Some 0 \<and>
   (let w = run reject_all accept_url no_credentials (req_page ''/'') ex_opts [Adapt] fresh_wiring;
        w1 = step reject_all accept_url no_credentials (req_page ''/'') ex_opts SocketClose w;
        w2 = step reject_all accept_url no_credentials (req_page ''/'') ex_opts Adapt w
    in cleanupRuns w 0 = 0 \<and>
       cleanupRuns w1 0 = 1 \<and> abortEvents w1 0 = 1 \<and> closeListeners w1 = [] \<and>
       step reject_all accept_url no_credentials (req_page ''/'') ex_opts SocketClose w1 = w1 \<and>
       cleanupRuns w2 0 = 1 \<and> cleanupSlot w2 = Some 1 \<and> closeListeners w2 = [1])"
proof -
  let ?req = "req_page ''/''"
  let ?w = "run reject_all accept_url no_credentials ?req ex_opts [Adapt] fresh_wiring"
  have sock: "getRequestSocket ?req = Some ex_socket"
    by (simp add: getRequestSocket_def ex_defs)
  have off: "has_off ex_socket"
    by (simp add: ex_socket_def)
  have ok: "\<not> isl (fst (createRequest reject_all accept_url no_credentials ?req ex_opts ?w))"
    by code_simp
  have w: "cleanupSlot ?w = Some 0" "nextController ?w = 1" "\<not> socketDestroyed ?w"
    by code_simp+
  from C4_cancellation_once [of reject_all accept_url no_credentials ?req ex_opts "[Adapt]" ex_socket]
  show ?thesis
    using sock off ok w by (simp add: Let_def)
qed


section \<open>Facts about the static handler\<close>

lemma js_split_no_sep: "sep \<notin> set p \<Longrightarrow> js_split sep p = [p]"
  by (induction p) auto

lemma js_split_sep: "sep \<notin> set p \<Longrightarrow> js_split sep (p @ sep # r) = p # js_split sep r"
  by (induction p) auto

lemma js_split_nonempty: "js_split sep s \<noteq> []"
  by (induction s) (simp_all split: list.splits)

lemma split_target:
  assumes "CHR ''?'' \<notin> set path"
  shows "hd (js_split CHR ''?'' (target path query)) = path"
    and "(case tl (js_split CHR ''?'' (target path query)) of [] \<Rightarrow> None | q # _ \<Rightarrow> Some q) =
         urlQuery_of query"
proof -
  show "hd (js_split CHR ''?'' (target path query)) = path"
    using assms by (cases query) (simp_all add: target_def js_split_no_sep js_split_sep)
  show "(case tl (js_split CHR ''?'' (target path query)) of [] \<Rightarrow> None | q # _ \<Rightarrow> Some q) =
         urlQuery_of query"
  proof (cases query)
    case None
    then show ?thesis using assms by (simp add: target_def js_split_no_sep urlQuery_of_def)
  next
    case (Some q)
    then show ?thesis
      using assms js_split_nonempty [of "CHR ''?''" q]
      by (cases "js_split CHR ''?'' q") (simp_all add: target_def js_split_sep urlQuery_of_def)
  qed
qed


text \<open>The handler on a target that is not empty: the middleware block, then the static
  part.\<close>

lemma handler_unfold:
  assumes "req_url req = Some (target path query)" "target path query \<noteq> []"
    "CHR ''?'' \<notin> set path"
  shows "createStaticHandler env app opts req d =
     (case middlewareBlock env app opts req path d of
        (Inl e, d1) \<Rightarrow> d1\<lparr>d_thrown := Some e\<rparr>
      | (Inr handled, d1) \<Rightarrow>
          if handled then d1
          else serveStatic env app opts req path (urlQuery_of query)
                 (env_pathJoin env (client opts) (removeBase app path)) d1)"
  using assms
  by (simp add: createStaticHandler_def Let_def split_target split: prod.splits sum.splits)

lemma middlewareBlock_skipped:
  assumes "\<not> (runMiddlewareOnRequest opts \<and> isPrerenderedHTMLPage path)"
  shows "middlewareBlock env app opts req path d = (Inr False, d)"
  using assms by (auto simp: middlewareBlock_def)

lemma setHeader_frame [simp]:
  "statusCode (setHeader n v res) = statusCode res"
  "written (setHeader n v res) = written res"
  "ended (setHeader n v res) = ended res"
  "destroyed (setHeader n v res) = destroyed res"
  by (simp_all add: setHeader_def)

lemma fold_setHeader_frame [simp]:
  "statusCode (fold (\<lambda>h. setHeader (fst h) (snd h)) hs res) = statusCode res"
  "written (fold (\<lambda>h. setHeader (fst h) (snd h)) hs res) = written res"
  "ended (fold (\<lambda>h. setHeader (fst h) (snd h)) hs res) = ended res"
  by (induction hs arbitrary: res) simp_all

text \<open>\<^verbatim>\<open>NodeApp.match\<close> throws when \<^verbatim>\<open>createRequest\<close> throws, and otherwise when
  \<^verbatim>\<open>App.match\<close> does.\<close>

lemma match_fst:
  "fst (match env app req allow w) =
     (case fst (createRequest (env_validateForwardedHost env) (env_newURL env)
                  (env_includesCredentials env) req
                  \<lparr>skipBody = True,
                   allowedDomains = (case manifest_allowedDomains app of Some ds \<Rightarrow> ds | None \<Rightarrow> [])\<rparr>
                  w) of
        Inl e \<Rightarrow> Inl e
      | Inr request \<Rightarrow> super_match app request allow)"
  by (simp add: match_def split: prod.splits sum.splits)

text \<open>Header injection touches the wiring and the headers of the sink, nothing else.\<close>

lemma injectHeaders_frame:
  "d_log (snd (injectHeaders env app req p d)) = d_log d"
  "d_console (snd (injectHeaders env app req p d)) = d_console d"
  "d_ssr (snd (injectHeaders env app req p d)) = d_ssr d"
  "d_middleware (snd (injectHeaders env app req p d)) = d_middleware d"
  "d_thrown (snd (injectHeaders env app req p d)) = d_thrown d"
  "statusCode (d_res (snd (injectHeaders env app req p d))) = statusCode (d_res d)"
  "written (d_res (snd (injectHeaders env app req p d))) = written (d_res d)"
  "ended (d_res (snd (injectHeaders env app req p d))) = ended (d_res d)"
  by (simp_all add: injectHeaders_def split: option.splits prod.splits sum.splits)

lemma injectHeaders_completes:
  assumes "headerInjectionCompletes env app req d"
  shows "fst (injectHeaders env app req p d) = Inr ()"
proof -
  have "\<not> isl (fst (injectHeaders env app req p d))"
    using assms
    by (auto simp: injectHeaders_def headerInjectionCompletes_def
          split: option.splits prod.splits sum.splits)
  then show ?thesis
    by (cases "fst (injectHeaders env app req p d)") simp_all
qed

text \<open>And header injection throws exactly when \<^verbatim>\<open>app.match\<close> is called and throws.\<close>

lemma injectHeaders_throws:
  assumes "\<not> headerInjectionCompletes env app req d"
  shows "fst (injectHeaders env app req p d) = Inl (projl (fst (match env app req True (d_wiring d))))"
  using assms
  by (auto simp: injectHeaders_def headerInjectionCompletes_def
        split: option.splits prod.splits sum.splits)

lemma redirect301_frame [simp]:
  "d_log (redirect301 l d) = d_log d" "d_ssr (redirect301 l d) = d_ssr d"
  "d_middleware (redirect301 l d) = d_middleware d" "d_thrown (redirect301 l d) = d_thrown d"
  "d_console (redirect301 l d) = d_console d"
  by (simp_all add: redirect301_def)

lemma pipeFile_frame [simp]:
  "d_log (pipeFile env app opts req p d) = d_log d"
  "d_middleware (pipeFile env app opts req p d) = d_middleware d"
  "d_thrown (pipeFile env app opts req p d) = d_thrown d"
  by (simp_all add: pipeFile_def onErrorAfterFile_def Let_def
        split: send_result.splits option.splits)

lemma serveStatic_frame:
  "d_log (serveStatic env app opts req p q f d) = d_log d"
  "d_middleware (serveStatic env app opts req p q f d) = d_middleware d"
proof -
  obtain r d1 where i: "injectHeaders env app req p d = (r, d1)"
    by (cases "injectHeaders env app req p d")
  have "d_log d1 = d_log d" "d_middleware d1 = d_middleware d"
    using injectHeaders_frame(1,4) [of env app req p d] by (simp_all add: i)
  then show "d_log (serveStatic env app opts req p q f d) = d_log d"
    "d_middleware (serveStatic env app opts req p q f d) = d_middleware d"
    by (simp_all add: serveStatic_def Let_def i split: sum.splits trailing_slash.splits)
qed

lemma serveStatic_thrown:
  assumes "headerInjectionCompletes env app req d"
  shows "d_thrown (serveStatic env app opts req p q f d) = d_thrown d"
proof -
  obtain r d1 where i: "injectHeaders env app req p d = (r, d1)"
    by (cases "injectHeaders env app req p d")
  have r: "r = Inr ()"
    using injectHeaders_completes [OF assms, of p] by (simp add: i)
  have "d_thrown d1 = d_thrown d"
    using injectHeaders_frame(5) [of env app req p d] by (simp add: i)
  then show ?thesis
    by (simp add: serveStatic_def Let_def i r split: trailing_slash.splits)
qed

lemma asset_extension_test:
  assumes "toLowerCase ext \<in> set asset_extensions"
  shows "test_asset_extension (stem @ ''.'' @ ext)"
proof -
  have "suffix (''.'' @ toLowerCase ext) (toLowerCase (stem @ ''.'' @ ext))"
    by (simp add: toLowerCase_def toLowerChar_def suffix_def)
  with assms show ?thesis
    unfolding test_asset_extension_def list_ex_iff by blast
qed


text \<open>
  Claim C6: for a request path that begins with \<^verbatim>\<open>/_astro/\<close>, or that ends with a dot and one
  of the extensions css, js, json, xml, txt, ico, png, jpg, jpeg, gif, svg, woff, woff2,
  ttf, eot, webp, avif and map in any mix of upper and lower case, the path is not taken
  for a prerendered HTML page, and the handler is the static part alone, whatever the
  run-middleware flag and the manifest say: the middleware is neither loaded nor invoked.
\<close>

theorem C6_assets_skip_middleware:
  assumes url: "req_url req = Some (target path query)" and nq: "CHR ''?'' \<notin> set path"
    and asset: "prefix ''/_astro/'' path \<or>
       (\<exists>stem ext. path = stem @ ''.'' @ ext \<and>
          toLowerCase ext \<in> set [''css'', ''js'', ''json'', ''xml'', ''txt'', ''ico'', ''png'', ''jpg'',
            ''jpeg'', ''gif'', ''svg'', ''woff'', ''woff2'', ''ttf'', ''eot'', ''webp'', ''avif'', ''map''])"
  shows "\<not> isPrerenderedHTMLPage path \<and>
         createStaticHandler env app opts req d =
           serveStatic env app opts req path (urlQuery_of query)
             (env_pathJoin env (client opts) (removeBase app path)) d \<and>
         d_middleware (createStaticHandler env app opts req d) = d_middleware d"
proof -
  from asset have ne: "path \<noteq> []" by auto
  then have t: "target path query \<noteq> []" by (simp add: target_def)
  from asset have no: "\<not> isPrerenderedHTMLPage path"
  proof
    assume "prefix ''/_astro/'' path"
    then show ?thesis by (simp add: isPrerenderedHTMLPage_def)
  next
    assume "\<exists>stem ext. path = stem @ ''.'' @ ext \<and>
          toLowerCase ext \<in> set [''css'', ''js'', ''json'', ''xml'', ''txt'', ''ico'', ''png'', ''jpg'',
            ''jpeg'', ''gif'', ''svg'', ''woff'', ''woff2'', ''ttf'', ''eot'', ''webp'', ''avif'', ''map'']"
    then obtain stem ext where p: "path = stem @ ''.'' @ ext"
      and e: "toLowerCase ext \<in> set asset_extensions"
      unfolding asset_extensions_def by blast
    from asset_extension_test [OF e, of stem] p show ?thesis
      by (simp add: isPrerenderedHTMLPage_def)
  qed
  have eq: "createStaticHandler env app opts req d =
           serveStatic env app opts req path (urlQuery_of query)
             (env_pathJoin env (client opts) (removeBase app path)) d"
    using no by (simp add: handler_unfold [OF url t nq] middlewareBlock_skipped)
  show ?thesis
    using no eq by (simp add: serveStatic_frame)
qed

theorem C6_assets_skip_middleware_witness:
  "runMiddlewareOnRequest (ex_options None True) \<and>
   \<not> isPrerenderedHTMLPage ''/_astro/app.js'' \<and>
   \<not> isPrerenderedHTMLPage ''/favicon.png'' \<and>
   d_middleware (createStaticHandler ex_env (ex_app (ex_module mw_blocks)) (ex_options None True)
      (req_page ''/_astro/app.js'') fresh_dispatch) = 0 \<and>
   d_middleware (createStaticHandler ex_env (ex_app (ex_module mw_blocks)) (ex_options None True)
      (req_page ''/favicon.png'') fresh_dispatch) = 0"
proof -
  have on: "runMiddlewareOnRequest (ex_options None True)"
    by (simp add: ex_options_def)
  have u1: "req_url (req_page ''/_astro/app.js'') = Some (target ''/_astro/app.js'' None)"
    and u2: "req_url (req_page ''/favicon.png'') = Some (target ''/favicon.png'' None)"
    by (simp_all add: req_page_def ex_request_def target_def)
  have n1: "CHR ''?'' \<notin> set ''/_astro/app.js''" and n2: "CHR ''?'' \<notin> set ''/favicon.png''"
    by simp_all
  have "prefix ''/_astro/'' ''/_astro/app.js''"
    by simp
  then have a1: "prefix ''/_astro/'' ''/_astro/app.js'' \<or>
       (\<exists>stem ext. ''/_astro/app.js'' = stem @ ''.'' @ ext \<and>
          toLowerCase ext \<in> set [''css'', ''js'', ''json'', ''xml'', ''txt'', ''ico'', ''png'', ''jpg'',
            ''jpeg'', ''gif'', ''svg'', ''woff'', ''woff2'', ''ttf'', ''eot'', ''webp'', ''avif'', ''map''])"
    by (rule disjI1)
  have l: "toLowerCase ''png'' = ''png''"
    by code_simp
  have "''/favicon.png'' = ''/favicon'' @ ''.'' @ ''png'' \<and>
          toLowerCase ''png'' \<in> set [''css'', ''js'', ''json'', ''xml'', ''txt'', ''ico'', ''png'', ''jpg'',
            ''jpeg'', ''gif'', ''svg'', ''woff'', ''woff2'', ''ttf'', ''eot'', ''webp'', ''avif'', ''map'']"
    by (simp add: l)
  then have a2: "prefix ''/_astro/'' ''/favicon.png'' \<or>
       (\<exists>stem ext. ''/favicon.png'' = stem @ ''.'' @ ext \<and>
          toLowerCase ext \<in> set [''css'', ''js'', ''json'', ''xml'', ''txt'', ''ico'', ''png'', ''jpg'',
            ''jpeg'', ''gif'', ''svg'', ''woff'', ''woff2'', ''ttf'', ''eot'', ''webp'', ''avif'', ''map''])"
    by blast
  have z: "d_middleware fresh_dispatch = 0"
    by (simp add: fresh_dispatch_def)
  note t1 = C6_assets_skip_middleware [OF u1 n1 a1, of ex_env "ex_app (ex_module mw_blocks)"
        "ex_options None True" fresh_dispatch]
  note t2 = C6_assets_skip_middleware [OF u2 n2 a2, of ex_env "ex_app (ex_module mw_blocks)"
        "ex_options None True" fresh_dispatch]
  show ?thesis
    using on z t1 [THEN conjunct1] t1 [THEN conjunct2, THEN conjunct2]
      t2 [THEN conjunct1] t2 [THEN conjunct2, THEN conjunct2]
    by simp
qed


text \<open>Unless the middleware has answered, the \<^verbatim>\<open>try\<close> block leaves the sink, the log and
  the counters of the dispatch as they were.\<close>

lemma tryMiddleware_not_handled_frame:
  assumes "fst (tryMiddleware env app req d) \<noteq> Inr True"
  shows "d_res (snd (tryMiddleware env app req d)) = d_res d"
    and "d_log (snd (tryMiddleware env app req d)) = d_log d"
    and "d_ssr (snd (tryMiddleware env app req d)) = d_ssr d"
    and "d_thrown (snd (tryMiddleware env app req d)) = d_thrown d"
    and "d_console (snd (tryMiddleware env app req d)) = d_console d"
  using assms
  by (auto simp: tryMiddleware_def executeMiddlewareForStatic_def Let_def
        split: option.splits manifest_middleware.splits sum.splits prod.splits mw_result.splits
          if_splits)

lemma tryMiddleware_loader_error:
  "manifest_middleware app = Some (MiddlewareLoader (Inl e)) \<Longrightarrow>
   tryMiddleware env app req d = (Inl e, d)"
  by (simp add: tryMiddleware_def)

lemma tryMiddleware_handler_error:
  assumes "manifest_middleware app = Some (MiddlewareModule m) \<or>
           manifest_middleware app = Some (MiddlewareLoader (Inr (Some m)))"
    and "onRequest m = Some h"
    and "fst (createRequest (env_validateForwardedHost env) (env_newURL env)
             (env_includesCredentials env) req
             \<lparr>skipBody = False,
              allowedDomains = (case getAllowedDomains app of Some ds \<Rightarrow> ds | None \<Rightarrow> [])\<rparr>
             (d_wiring d)) = Inr r"
    and "h (staticContext r) = MwThrows e"
  shows "fst (tryMiddleware env app req d) = Inl e"
  using assms
  by (auto simp: tryMiddleware_def executeMiddlewareForStatic_def Let_def split: prod.splits)


text \<open>
  An error of the \<^verbatim>\<open>try\<close> block (the loader of the module, the adaptation of the request
  or the middleware itself) that converts to a string is logged, and the handler then does
  what the static part does on an untouched sink.
\<close>

lemma middleware_error_fails_open:
  assumes url: "req_url req = Some (target path query)" and ne: "target path query \<noteq> []"
    and nq: "CHR ''?'' \<notin> set path"
    and attempted: "runMiddlewareOnRequest opts \<and> isPrerenderedHTMLPage path"
    and raised: "fst (tryMiddleware env app req d) = Inl err"
    and printable: "error_toString err = Inr msg"
  shows "createStaticHandler env app opts req d =
           serveStatic env app opts req path (urlQuery_of query)
             (env_pathJoin env (client opts) (removeBase app path))
             ((snd (tryMiddleware env app req d))
                \<lparr>d_log := d_log d @ [''Error executing middleware for static page: '' @ msg]\<rparr>)"
    and "d_res (snd (tryMiddleware env app req d)) = d_res d"
    and "d_log (createStaticHandler env app opts req d) =
           d_log d @ [''Error executing middleware for static page: '' @ msg]"
proof -
  obtain d1 where t: "tryMiddleware env app req d = (Inl err, d1)"
    using raised by (cases "tryMiddleware env app req d") simp
  from raised have nh: "fst (tryMiddleware env app req d) \<noteq> Inr True" by simp
  note fr = tryMiddleware_not_handled_frame [OF nh]
  have b: "middlewareBlock env app opts req path d =
      (Inr False, d1\<lparr>d_log := d_log d @ [''Error executing middleware for static page: '' @ msg]\<rparr>)"
    using attempted fr(2) by (simp add: middlewareBlock_def t printable)
  show eq: "createStaticHandler env app opts req d =
           serveStatic env app opts req path (urlQuery_of query)
             (env_pathJoin env (client opts) (removeBase app path))
             ((snd (tryMiddleware env app req d))
                \<lparr>d_log := d_log d @ [''Error executing middleware for static page: '' @ msg]\<rparr>)"
    by (simp add: handler_unfold [OF url ne nq] b t)
  show "d_res (snd (tryMiddleware env app req d)) = d_res d"
    by (rule fr(1))
  show "d_log (createStaticHandler env app opts req d) =
           d_log d @ [''Error executing middleware for static page: '' @ msg]"
    by (simp add: eq serveStatic_frame)
qed

text \<open>An error that does not convert to a string makes the \<^verbatim>\<open>catch\<close> throw: nothing is
  logged, the static part does not run, and the handler rejects.\<close>

lemma middleware_error_unprintable:
  assumes url: "req_url req = Some (target path query)" and ne: "target path query \<noteq> []"
    and nq: "CHR ''?'' \<notin> set path"
    and attempted: "runMiddlewareOnRequest opts \<and> isPrerenderedHTMLPage path"
    and raised: "fst (tryMiddleware env app req d) = Inl err"
    and unprintable: "error_toString err = Inl e"
  shows "createStaticHandler env app opts req d =
           (snd (tryMiddleware env app req d))\<lparr>d_thrown := Some e\<rparr>"
    and "d_res (createStaticHandler env app opts req d) = d_res d"
    and "d_log (createStaticHandler env app opts req d) = d_log d"
    and "d_ssr (createStaticHandler env app opts req d) = d_ssr d"
proof -
  obtain d1 where t: "tryMiddleware env app req d = (Inl err, d1)"
    using raised by (cases "tryMiddleware env app req d") simp
  from raised have nh: "fst (tryMiddleware env app req d) \<noteq> Inr True" by simp
  note fr = tryMiddleware_not_handled_frame [OF nh]
  have b: "middlewareBlock env app opts req path d = (Inl e, d1)"
    using attempted by (simp add: middlewareBlock_def t unprintable)
  show eq: "createStaticHandler env app opts req d =
           (snd (tryMiddleware env app req d))\<lparr>d_thrown := Some e\<rparr>"
    by (simp add: handler_unfold [OF url ne nq] b t)
  show "d_res (createStaticHandler env app opts req d) = d_res d"
    and "d_log (createStaticHandler env app opts req d) = d_log d"
    and "d_ssr (createStaticHandler env app opts req d) = d_ssr d"
    using fr by (simp_all add: eq)
qed

text \<open>
  Claim C7 says that any error raised while the middleware is loaded or invoked is caught
  and logged, and that dispatch goes on to static serving. The \<^verbatim>\<open>catch\<close> writes the error
  into a template literal. For \<^verbatim>\<open>GET /set-cookie-page\<close> with a middleware that throws an
  \<^verbatim>\<open>Error\<close> this is so: one line is logged and the page is served. With a middleware
  that throws a \<^verbatim>\<open>Symbol\<close> the template literal throws a \<^verbatim>\<open>TypeError\<close> inside the
  \<^verbatim>\<open>catch\<close>: nothing is logged, nothing is written, the response is not ended, the SSR
  fallback is not invoked and the handler rejects.
\<close>

theorem C7_catch_throws_on_symbol:
  "fst (tryMiddleware ex_env (ex_app (ex_module mw_throws)) (req_page ''/set-cookie-page'')
          fresh_dispatch) = Inl (Error ''boom'') \<and>
   d_log (createStaticHandler ex_env (ex_app (ex_module mw_throws)) (ex_options None True)
      (req_page ''/set-cookie-page'') fresh_dispatch) =
     [''Error executing middleware for static page: Error: boom''] \<and>
   written (d_res (createStaticHandler ex_env (ex_app (ex_module mw_throws)) (ex_options None True)
      (req_page ''/set-cookie-page'') fresh_dispatch)) = [''<h1>Static Page</h1>''] \<and>
   ended (d_res (createStaticHandler ex_env (ex_app (ex_module mw_throws)) (ex_options None True)
      (req_page ''/set-cookie-page'') fresh_dispatch)) = True \<and>
   d_thrown (createStaticHandler ex_env (ex_app (ex_module mw_throws)) (ex_options None True)
      (req_page ''/set-cookie-page'') fresh_dispatch) = None \<and>
   fst (tryMiddleware ex_env (ex_app (ex_module mw_throws_symbol)) (req_page ''/set-cookie-page'')
          fresh_dispatch) =
     Inl (Unprintable (TypeError ''Cannot convert a Symbol value to a string'')) \<and>
   d_thrown (createStaticHandler ex_env (ex_app (ex_module mw_throws_symbol)) (ex_options None True)
      (req_page ''/set-cookie-page'') fresh_dispatch) =
     Some (TypeError ''Cannot convert a Symbol value to a string'') \<and>
   d_log (createStaticHandler ex_env (ex_app (ex_module mw_throws_symbol)) (ex_options None True)
      (req_page ''/set-cookie-page'') fresh_dispatch) = [] \<and>
   written (d_res (createStaticHandler ex_env (ex_app (ex_module mw_throws_symbol))
      (ex_options None True) (req_page ''/set-cookie-page'') fresh_dispatch)) = [] \<and>
   ended (d_res (createStaticHandler ex_env (ex_app (ex_module mw_throws_symbol))
      (ex_options None True) (req_page ''/set-cookie-page'') fresh_dispatch)) = False \<and>
   d_ssr (createStaticHandler ex_env (ex_app (ex_module mw_throws_symbol)) (ex_options None True)
      (req_page ''/set-cookie-page'') fresh_dispatch) = 0"
  by code_simp

text \<open>
  The static part that follows a logged error is outside the \<^verbatim>\<open>try\<close>. When the
  adaptation of the request is what failed, it fails again in \<^verbatim>\<open>app.match\<close> as soon as
  there is a header map: for the forwarded port \<^verbatim>\<open>abc\<close> the error is logged, and then the
  handler rejects with nothing served.
\<close>

lemma logged_error_then_match_throws:
  "d_log (createStaticHandler (ex_env\<lparr>env_newURL := reject_port_abc\<rparr>)
      (ex_app_headers (ex_module mw_sets_cookie)) (ex_options None True) req_blog_bad_port
      fresh_dispatch) =
     [''Error executing middleware for static page: TypeError: Invalid URL''] \<and>
   d_thrown (createStaticHandler (ex_env\<lparr>env_newURL := reject_port_abc\<rparr>)
      (ex_app_headers (ex_module mw_sets_cookie)) (ex_options None True) req_blog_bad_port
      fresh_dispatch) = Some (TypeError ''Invalid URL'') \<and>
   written (d_res (createStaticHandler (ex_env\<lparr>env_newURL := reject_port_abc\<rparr>)
      (ex_app_headers (ex_module mw_sets_cookie)) (ex_options None True) req_blog_bad_port
      fresh_dispatch)) = [] \<and>
   ended (d_res (createStaticHandler (ex_env\<lparr>env_newURL := reject_port_abc\<rparr>)
      (ex_app_headers (ex_module mw_sets_cookie)) (ex_options None True) req_blog_bad_port
      fresh_dispatch)) = False \<and>
   d_ssr (createStaticHandler (ex_env\<lparr>env_newURL := reject_port_abc\<rparr>)
      (ex_app_headers (ex_module mw_sets_cookie)) (ex_options None True) req_blog_bad_port
      fresh_dispatch) = 0"
  by code_simp




text \<open>When \<^verbatim>\<open>app.match\<close> throws for the header map, the static part sets no status, ends
  nothing and the handler rejects with that error.\<close>

lemma serveStatic_match_throws:
  assumes "\<not> headerInjectionCompletes env app req d"
  shows "d_thrown (serveStatic env app opts req path q f d) =
           Some (projl (fst (match env app req True (d_wiring d))))"
    and "d_res (serveStatic env app opts req path q f d) = d_res d"
    and "d_ssr (serveStatic env app opts req path q f d) = d_ssr d"
proof -
  obtain r d1 where i: "injectHeaders env app req path d = (r, d1)"
    by (cases "injectHeaders env app req path d")
  have r: "r = Inl (projl (fst (match env app req True (d_wiring d))))"
    using injectHeaders_throws [OF assms, of path] by (simp add: i)
  have d1: "d_res d1 = d_res d" "d_ssr d1 = d_ssr d"
    using assms i
    by (auto simp: injectHeaders_def headerInjectionCompletes_def
          split: option.splits prod.splits sum.splits if_splits)
  show "d_thrown (serveStatic env app opts req path q f d) =
           Some (projl (fst (match env app req True (d_wiring d))))"
    and "d_res (serveStatic env app opts req path q f d) = d_res d"
    and "d_ssr (serveStatic env app opts req path q f d) = d_ssr d"
    using d1 by (simp_all add: serveStatic_def Let_def i r)
qed





text \<open>
  Claim C2 says that cookies recorded on the middleware context are merged as
  \<^verbatim>\<open>set-cookie\<close> headers onto the final response on every dispatch path. The static
  handler never reads them. For \<^verbatim>\<open>GET /set-cookie-page\<close> with the middleware of the test
  fixture, which calls \<^verbatim>\<open>next()\<close> and sets a cookie, the middleware runs once and the static
  page is served with the headers of the file alone; with a middleware that sets a cookie
  and redirects without calling \<^verbatim>\<open>next()\<close>, the response written has the Location header of
  the redirect and no \<^verbatim>\<open>set-cookie\<close> header.
\<close>

theorem C2_context_cookies_are_dropped:
  "d_middleware (createStaticHandler ex_env (ex_app (ex_module mw_sets_cookie))
      (ex_options None True) (req_page ''/set-cookie-page'') fresh_dispatch) = 1 \<and>
   statusCode (d_res (createStaticHandler ex_env (ex_app (ex_module mw_sets_cookie))
      (ex_options None True) (req_page ''/set-cookie-page'') fresh_dispatch)) = 200 \<and>
   written (d_res (createStaticHandler ex_env (ex_app (ex_module mw_sets_cookie))
      (ex_options None True) (req_page ''/set-cookie-page'') fresh_dispatch)) =
     [''<h1>Static Page</h1>''] \<and>
   sink_headers (d_res (createStaticHandler ex_env (ex_app (ex_module mw_sets_cookie))
      (ex_options None True) (req_page ''/set-cookie-page'') fresh_dispatch)) =
     [(''Content-Type'', ''text/html'')] \<and>
   d_middleware (createStaticHandler ex_env (ex_app (ex_module mw_redirects))
      (ex_options None True) (req_page ''/set-cookie-page'') fresh_dispatch) = 1 \<and>
   statusCode (d_res (createStaticHandler ex_env (ex_app (ex_module mw_redirects))
      (ex_options None True) (req_page ''/set-cookie-page'') fresh_dispatch)) = 302 \<and>
   sink_headers (d_res (createStaticHandler ex_env (ex_app (ex_module mw_redirects))
      (ex_options None True) (req_page ''/set-cookie-page'') fresh_dispatch)) =
     [(''Location'', ''/login'')]"
  by code_simp

text \<open>The sibling \<^verbatim>\<open>NodeApp.executeMiddlewareOnly\<close> does append the cookies of the context to
  the response it returns.\<close>

lemma executeMiddlewareOnly_appends_cookies:
  assumes "middleware (createMiddlewareContext app request routeData) =
             MwReturns (Some r) nextCalled cookies"
  shows "executeMiddlewareOnly app request routeData middleware =
           Inr (\<not> nextCalled,
                Some (r\<lparr>response_headers :=
                          response_headers r @ map (\<lambda>v. (''set-cookie'', v)) cookies\<rparr>))"
  using assms by (simp add: executeMiddlewareOnly_def appendCookies_def)

lemma executeMiddlewareForStatic_ignores_cookies:
  "executeMiddlewareForStatic env req (without_cookies \<circ> h) app d =
   executeMiddlewareForStatic env req h app d"
proof -
  let ?o = "\<lparr>skipBody = False,
             allowedDomains = (case getAllowedDomains app of Some ds \<Rightarrow> ds | None \<Rightarrow> [])\<rparr>"
  obtain r w where c: "createRequest (env_validateForwardedHost env) (env_newURL env)
      (env_includesCredentials env) req ?o
      (d_wiring d) = (r, w)"
    by (cases "createRequest (env_validateForwardedHost env) (env_newURL env)
      (env_includesCredentials env) req ?o (d_wiring d)")
  show ?thesis
  proof (cases r)
    case (Inl e)
    then show ?thesis by (simp add: executeMiddlewareForStatic_def c)
  next
    case (Inr request)
    then show ?thesis
      by (cases "h (staticContext request)")
         (simp_all add: executeMiddlewareForStatic_def c Let_def)
  qed
qed

lemma tryMiddleware_ignores_cookies:
  "tryMiddleware env (app\<lparr>manifest_middleware := map_option forget_cookies (manifest_middleware app)\<rparr>)
     req d = tryMiddleware env app req d"
proof (cases "manifest_middleware app")
  case None
  then show ?thesis by (simp add: tryMiddleware_def)
next
  case (Some m)
  have x: "executeMiddlewareForStatic env req h
             (app\<lparr>manifest_middleware := mm\<rparr>) d = executeMiddlewareForStatic env req h app d"
    for h mm
    by (simp add: executeMiddlewareForStatic_def)
  show ?thesis
  proof (cases m)
    case (MiddlewareLoader l)
    show ?thesis
    proof (cases l)
      case (Inl e)
      then show ?thesis using Some MiddlewareLoader by (simp add: tryMiddleware_def)
    next
      case (Inr mo)
      then show ?thesis using Some MiddlewareLoader
        by (cases mo; cases "onRequest (the mo)")
           (simp_all add: tryMiddleware_def x executeMiddlewareForStatic_ignores_cookies)
    qed
  next
    case (MiddlewareModule mo)
    then show ?thesis using Some
      by (cases "onRequest mo")
         (simp_all add: tryMiddleware_def x executeMiddlewareForStatic_ignores_cookies)
  qed
qed

text \<open>Whatever the middleware leaves in the cookie jar of the context, the static handler
  does the same.\<close>

lemma static_handler_ignores_cookies:
  "createStaticHandler env
     (app\<lparr>manifest_middleware := map_option forget_cookies (manifest_middleware app)\<rparr>) opts req d =
   createStaticHandler env app opts req d"
proof -
  let ?app = "app\<lparr>manifest_middleware := map_option forget_cookies (manifest_middleware app)\<rparr>"
  have m: "match env ?app req a x = match env app req a x" for a x
    by (simp add: match_def cong: prod.case_cong sum.case_cong)
  have i: "injectHeaders env ?app req p x = injectHeaders env app req p x" for p x
    by (simp add: injectHeaders_def m cong: option.case_cong if_cong)
  have p: "pipeFile env ?app opts req p x = pipeFile env app opts req p x" for p x
    by (simp add: pipeFile_def)
  have s: "serveStatic env ?app opts req p q f x = serveStatic env app opts req p q f x" for p q f x
    by (simp add: serveStatic_def i p
          cong: prod.case_cong sum.case_cong trailing_slash.case_cong if_cong)
  have b: "middlewareBlock env ?app opts req p x = middlewareBlock env app opts req p x" for p x
    by (simp add: middlewareBlock_def tryMiddleware_ignores_cookies)
  show ?thesis
    by (simp add: createStaticHandler_def s b
          cong: option.case_cong prod.case_cong sum.case_cong if_cong)
qed


end
